theory Spec2Isabelle
  imports Complex_Main "HOL-Library.Multiset"
begin

section \<open>JavaScript values\<close>

text \<open>
  The rows read from the CSV files hold strings; a column that is missing reads as
  \<^verbatim>\<open>undefined\<close>. A value that is a string, \<^verbatim>\<open>null\<close> or \<^verbatim>\<open>undefined\<close> is a
  \<^typ>\<open>string option\<close>, \<open>None\<close> standing for both \<^verbatim>\<open>null\<close> and \<^verbatim>\<open>undefined\<close>
  (the code only tests such values for truthiness or compares them with \<^verbatim>\<open>===\<close>
  against values of the same origin).

  Strings are lists of 8-bit characters and the character functions below are the ASCII
  ones; characters outside ASCII are treated as symbols that are neither letters, digits
  nor white space. A finite number is a rational (every double is one). Where a function
  of the program is evaluated on a concrete text, numbers are read and multiplied
  exactly (\<open>parseFloat\<close> below, with \<open>None\<close> for \<^verbatim>\<open>NaN\<close>); where a statement is about
  every text, the two operations that round, \<^verbatim>\<open>parseFloat\<close> and the product of
  doubles, are parameters (\<open>parsePriceWith\<close> below).
\<close>

datatype error = TypeError | SyntaxError | Error string

text \<open>The values that \<^verbatim>\<open>JSON.parse\<close> returns.\<close>

datatype json =
  JNull | JBool bool | JNum rat | JStr string | JArr "json list" | JObj "(string \<times> json) list"

text \<open>\<^verbatim>\<open>!x\<close> for a string, \<^verbatim>\<open>null\<close> or \<^verbatim>\<open>undefined\<close>.\<close>

definition falsy :: "string option \<Rightarrow> bool" where
  "falsy x = (case x of None \<Rightarrow> True | Some s \<Rightarrow> s = [])"

text \<open>A method call \<^verbatim>\<open>x.f(...)\<close> on \<^verbatim>\<open>null\<close> or \<^verbatim>\<open>undefined\<close> throws a TypeError.\<close>

definition deref :: "'a option \<Rightarrow> error + 'a" where
  "deref x = (case x of None \<Rightarrow> Inl TypeError | Some v \<Rightarrow> Inr v)"

definition bindR :: "error + 'a \<Rightarrow> ('a \<Rightarrow> error + 'b) \<Rightarrow> error + 'b" where
  "bindR r f = (case r of Inl e \<Rightarrow> Inl e | Inr v \<Rightarrow> f v)"

text \<open>\<^verbatim>\<open>try { body } catch (error) { handler }\<close>.\<close>

definition tryCatch :: "error + 'a \<Rightarrow> (error \<Rightarrow> error + 'a) \<Rightarrow> error + 'a" where
  "tryCatch body handler = (case body of Inl e \<Rightarrow> handler e | Inr v \<Rightarrow> Inr v)"

definition isDigit :: "char \<Rightarrow> bool" where
  "isDigit c = (c \<in> set ''0123456789'')"

definition isLower :: "char \<Rightarrow> bool" where
  "isLower c = (c \<in> set ''abcdefghijklmnopqrstuvwxyz'')"

definition isUpper :: "char \<Rightarrow> bool" where
  "isUpper c = (c \<in> set ''ABCDEFGHIJKLMNOPQRSTUVWXYZ'')"

text \<open>White space and line terminators of \<^verbatim>\<open>\s\<close> and \<^verbatim>\<open>trim\<close>: tab, LF, VT, FF, CR, space.\<close>

definition isSpace :: "char \<Rightarrow> bool" where
  "isSpace c = (c \<in> {CHR 0x09, CHR 0x0A, CHR 0x0B, CHR 0x0C, CHR 0x0D, CHR '' ''})"

text \<open>\<^verbatim>\<open>\w\<close>.\<close>

definition isWordChar :: "char \<Rightarrow> bool" where
  "isWordChar c = (isLower c \<or> isUpper c \<or> isDigit c \<or> c = CHR ''_'')"

definition toLowerChar :: "char \<Rightarrow> char" where
  "toLowerChar c =
     (case map_of (zip ''ABCDEFGHIJKLMNOPQRSTUVWXYZ'' ''abcdefghijklmnopqrstuvwxyz'') c of
        Some l \<Rightarrow> l | None \<Rightarrow> c)"

definition toUpperChar :: "char \<Rightarrow> char" where
  "toUpperChar c =
     (case map_of (zip ''abcdefghijklmnopqrstuvwxyz'' ''ABCDEFGHIJKLMNOPQRSTUVWXYZ'') c of
        Some u \<Rightarrow> u | None \<Rightarrow> c)"

definition toLowerCase :: "string \<Rightarrow> string" where
  "toLowerCase s = map toLowerChar s"

text \<open>\<^verbatim>\<open>s.includes(t)\<close>: \<open>t\<close> occurs in \<open>s\<close> as a contiguous substring.\<close>

fun startsWith :: "string \<Rightarrow> string \<Rightarrow> bool" where
  "startsWith s [] = True"
| "startsWith [] (y # ys) = False"
| "startsWith (x # xs) (y # ys) = (x = y \<and> startsWith xs ys)"

fun includesStr :: "string \<Rightarrow> string \<Rightarrow> bool" where
  "includesStr [] t = (t = [])"
| "includesStr (x # xs) t = (startsWith (x # xs) t \<or> includesStr xs t)"

definition digitVal :: "char \<Rightarrow> nat" where
  "digitVal c = (case map_of (zip ''0123456789'' [0, 1, 2, 3, 4, 5, 6, 7, 8, 9]) c of
                   Some d \<Rightarrow> d | None \<Rightarrow> 0)"

text \<open>The value of a string of decimal digits.\<close>

definition decimal :: "string \<Rightarrow> nat" where
  "decimal ds = foldl (\<lambda>n c. 10 * n + digitVal c) 0 ds"

text \<open>
  \<^verbatim>\<open>parseFloat\<close>, on the arguments it gets in this program: strings of digits and dots
  (the non-numeric characters are stripped before each call, or the argument is a regex
  group of that shape). It reads the longest prefix of the form \<^verbatim>\<open>digits\<close>,
  \<^verbatim>\<open>digits.digits\<close>, \<^verbatim>\<open>digits.\<close> or \<^verbatim>\<open>.digits\<close>; \<open>None\<close> is \<^verbatim>\<open>NaN\<close>.
\<close>

definition parseFloat :: "string \<Rightarrow> rat option" where
  "parseFloat s =
     (let ip = takeWhile isDigit s in
      case dropWhile isDigit s of
        [] \<Rightarrow> if ip = [] then None else Some (of_nat (decimal ip))
      | c # r \<Rightarrow>
          if c = CHR ''.'' then
            (let fp = takeWhile isDigit r in
             if ip = [] \<and> fp = [] then None
             else Some (of_nat (decimal ip) + of_nat (decimal fp) / 10 ^ length fp))
          else if ip = [] then None else Some (of_nat (decimal ip)))"

text \<open>
  What the built-in \<^verbatim>\<open>parseFloat\<close> returns for a text of digits and dots: \<^verbatim>\<open>NaN\<close>, a
  finite double that is not negative, or \<^verbatim>\<open>Infinity\<close> (for a text with more than 308
  digits before the dot).
\<close>

datatype number = NaN | Finite rat | Infinite

text \<open>The reading without rounding, as a \<open>number\<close>.\<close>

definition exactFloat :: "string \<Rightarrow> number" where
  "exactFloat s = (case parseFloat s of None \<Rightarrow> NaN | Some v \<Rightarrow> Finite v)"

text \<open>\<^verbatim>\<open>parseInt\<close> on a non-empty string of digits (a regex group \<^verbatim>\<open>\d+\<close> or \<^verbatim>\<open>\d\<close>).\<close>

definition parseInt :: "string \<Rightarrow> int" where
  "parseInt s = int (decimal (takeWhile isDigit s))"

text \<open>The remainder \<^verbatim>\<open>x % y\<close> of numbers: the quotient is truncated towards zero.\<close>

definition jsRem :: "rat \<Rightarrow> rat \<Rightarrow> rat" where
  "jsRem x y = x - y * of_int (if 0 \<le> x / y then \<lfloor>x / y\<rfloor> else \<lceil>x / y\<rceil>)"

text \<open>\<^verbatim>\<open>s.trim()\<close>.\<close>

definition trim :: "string \<Rightarrow> string" where
  "trim s = rev (dropWhile isSpace (rev (dropWhile isSpace s)))"

text \<open>\<^verbatim>\<open>s.split(c)\<close> for a separator of one character.\<close>

fun splitOn :: "char \<Rightarrow> string \<Rightarrow> string list" where
  "splitOn sep [] = [[]]"
| "splitOn sep (x # xs) =
     (if x = sep then [] # splitOn sep xs
      else (case splitOn sep xs of [] \<Rightarrow> [[x]] | w # ws \<Rightarrow> (x # w) # ws))"

text \<open>
  \<^verbatim>\<open>s.split(/\s+/)\<close>: the pieces between the runs of white space; \<open>cur\<close> is the
  piece being read, reversed.
\<close>

function splitSpaces :: "string \<Rightarrow> string \<Rightarrow> string list" where
  "splitSpaces cur [] = [rev cur]"
| "splitSpaces cur (c # cs) =
     (if isSpace c then rev cur # splitSpaces [] (dropWhile isSpace cs)
      else splitSpaces (c # cur) cs)"
  by pat_completeness auto
termination
  by (relation "measure (\<lambda>(cur, s). length s)")
     (auto simp: le_imp_less_Suc length_dropWhile_le)

text \<open>\<^verbatim>\<open>[...new Set(xs)]\<close>: the first occurrence of every element, in order.\<close>

fun dedupe :: "'a list \<Rightarrow> 'a list \<Rightarrow> 'a list" where
  "dedupe seen [] = []"
| "dedupe seen (x # xs) = (if x \<in> set seen then dedupe seen xs else x # dedupe (x # seen) xs)"

section \<open>Regular expressions\<close>

text \<open>
  The regular expressions of the program, as syntax trees, and a backtracking matcher
  that explores the alternatives in the order of the ECMAScript semantics: the left
  branch of \<^verbatim>\<open>|\<close> first, greedy quantifiers longest first. The matcher returns every
  way to match from a position, best first; the match of the expression is the first
  one, at the leftmost position that has one.
\<close>

datatype atom = Digit | Space | WordCh | Ch char | Range char char

datatype cls = Dot | Pos "atom list" | Neg "atom list"

datatype regex =
    Eps
  | Atom cls
  | Seq regex regex
  | Alt regex regex
  | Rep nat "nat option" regex
  | Group nat regex
  | Look regex
  | Bol
  | Eol
  | WordB

fun in_atom :: "atom \<Rightarrow> char \<Rightarrow> bool" where
  "in_atom Digit c = isDigit c"
| "in_atom Space c = isSpace c"
| "in_atom WordCh c = isWordChar c"
| "in_atom (Ch x) c = (c = x)"
| "in_atom (Range a b) c = ((of_char a :: nat) \<le> of_char c \<and> (of_char c :: nat) \<le> of_char b)"

text \<open>
  With the flag \<^verbatim>\<open>i\<close> a character is in a set when some member of the set has the same
  canonical (upper case) form; for ASCII that member is the character in lower or in
  upper case. \<^verbatim>\<open>.\<close> is any character but a line terminator.
\<close>

definition in_atoms :: "bool \<Rightarrow> atom list \<Rightarrow> char \<Rightarrow> bool" where
  "in_atoms ic as c =
     list_ex (\<lambda>a. in_atom a c \<or> (ic \<and> (in_atom a (toLowerChar c) \<or> in_atom a (toUpperChar c)))) as"

fun in_cls :: "bool \<Rightarrow> cls \<Rightarrow> char \<Rightarrow> bool" where
  "in_cls ic Dot c = (c \<noteq> CHR 0x0A \<and> c \<noteq> CHR 0x0D)"
| "in_cls ic (Pos as) c = in_atoms ic as c"
| "in_cls ic (Neg as) c = (\<not> in_atoms ic as c)"

text \<open>
  A matcher state: the character before the position (\<open>None\<close> at the start of the
  input), the input from the position on, and the groups captured so far (the latest
  first).
\<close>

record mstate =
  prev :: "char option"
  rest :: string
  caps :: "(nat \<times> string) list"

fun rsize :: "regex \<Rightarrow> nat" where
  "rsize (Seq r1 r2) = Suc (rsize r1 + rsize r2)"
| "rsize (Alt r1 r2) = Suc (rsize r1 + rsize r2)"
| "rsize (Rep lo hi r) = Suc (rsize r)"
| "rsize (Group i r) = Suc (rsize r)"
| "rsize (Look r) = Suc (rsize r)"
| "rsize r = 0"

definition atBoundary :: "mstate \<Rightarrow> bool" where
  "atBoundary s =
     ((case prev s of None \<Rightarrow> False | Some c \<Rightarrow> isWordChar c) \<noteq>
      (case rest s of [] \<Rightarrow> False | c # cs \<Rightarrow> isWordChar c))"

text \<open>
  \<open>Rep lo hi r\<close> is \<^verbatim>\<open>r{lo,hi}\<close> (\<open>hi = None\<close>: no upper bound), so \<^verbatim>\<open>r*\<close> is
  \<open>Rep 0 None r\<close>, \<^verbatim>\<open>r+\<close> is \<open>Rep 1 None r\<close> and \<^verbatim>\<open>r?\<close> is \<open>Rep 0 (Some 1) r\<close>. An
  iteration that consumes nothing ends the repetition (every repeated expression of the
  program consumes at least one character).
\<close>

function (sequential) matches :: "bool \<Rightarrow> regex \<Rightarrow> mstate \<Rightarrow> mstate list" where
  "matches ic Eps s = [s]"
| "matches ic (Atom c) s =
     (case rest s of
        [] \<Rightarrow> []
      | x # xs \<Rightarrow> if in_cls ic c x then [s\<lparr>prev := Some x, rest := xs\<rparr>] else [])"
| "matches ic (Seq r1 r2) s = concat (map (matches ic r2) (matches ic r1 s))"
| "matches ic (Alt r1 r2) s = matches ic r1 s @ matches ic r2 s"
| "matches ic (Rep lo hi r) s =
     (if hi = Some 0 then [s]
      else concat (map (\<lambda>s'. if length (rest s') < length (rest s)
                               then matches ic (Rep (lo - 1) (map_option (\<lambda>h. h - 1) hi) r) s'
                               else [])
                       (matches ic r s))
           @ (if lo = 0 then [s] else []))"
| "matches ic (Group i r) s =
     map (\<lambda>s'. s'\<lparr>caps := (i, take (length (rest s) - length (rest s')) (rest s)) # caps s'\<rparr>)
         (matches ic r s)"
| "matches ic (Look r) s =
     (case matches ic r s of [] \<Rightarrow> [] | s' # _ \<Rightarrow> [s\<lparr>caps := caps s'\<rparr>])"
| "matches ic Bol s = (if prev s = None then [s] else [])"
| "matches ic Eol s = (if rest s = [] then [s] else [])"
| "matches ic WordB s = (if atBoundary s then [s] else [])"
  by pat_completeness auto
termination
  by (relation "measures [\<lambda>(ic, r, s). rsize r, \<lambda>(ic, r, s). length (rest s)]") auto

text \<open>A literal string, and \<^verbatim>\<open>a|b|...\<close> over literal strings.\<close>

definition Str :: "string \<Rightarrow> regex" where
  "Str s = foldr (\<lambda>c r. Seq (Atom (Pos [Ch c])) r) s Eps"

definition AnyOf :: "regex list \<Rightarrow> regex" where
  "AnyOf rs = (case rs of [] \<Rightarrow> Eps | r # rs' \<Rightarrow> foldl Alt r rs')"

definition Seqs :: "regex list \<Rightarrow> regex" where
  "Seqs rs = foldr Seq rs Eps"

text \<open>
  The result of \<^verbatim>\<open>RegExp.prototype.exec\<close> without the flag \<^verbatim>\<open>g\<close>: the text before the
  match, the matched text, the text after it, and the captured groups.
\<close>

record rmatch =
  before :: string
  matched :: string
  after :: string
  groups :: "(nat \<times> string) list"

text \<open>\<open>searchFrom ic r p s\<close>: the input is \<open>rev p @ s\<close> and the search starts after \<open>rev p\<close>.\<close>

fun searchFrom :: "bool \<Rightarrow> regex \<Rightarrow> string \<Rightarrow> string \<Rightarrow> rmatch option" where
  "searchFrom ic r p s =
     (case matches ic r \<lparr>prev = (case p of [] \<Rightarrow> None | c # _ \<Rightarrow> Some c), rest = s, caps = []\<rparr> of
        s' # _ \<Rightarrow>
          Some \<lparr>before = rev p, matched = take (length s - length (rest s')) s,
                after = rest s', groups = caps s'\<rparr>
      | [] \<Rightarrow> (case s of [] \<Rightarrow> None | c # cs \<Rightarrow> searchFrom ic r (c # p) cs))"

text \<open>\<^verbatim>\<open>s.match(r)\<close> for \<open>r\<close> without the flag \<^verbatim>\<open>g\<close>; \<open>None\<close> is \<^verbatim>\<open>null\<close>.\<close>

definition regexMatch :: "bool \<Rightarrow> regex \<Rightarrow> string \<Rightarrow> rmatch option" where
  "regexMatch ic r s = searchFrom ic r [] s"

text \<open>\<^verbatim>\<open>match[i]\<close>; \<open>None\<close> is \<^verbatim>\<open>undefined\<close> (the group took no part in the match).\<close>

definition group :: "rmatch \<Rightarrow> nat \<Rightarrow> string option" where
  "group m i = map_of (groups m) i"

text \<open>\<^verbatim>\<open>r.test(s)\<close>.\<close>

definition regexTest :: "bool \<Rightarrow> regex \<Rightarrow> string \<Rightarrow> bool" where
  "regexTest ic r s = (regexMatch ic r s \<noteq> None)"

text \<open>\<^verbatim>\<open>s.replace(r, t)\<close> for \<open>r\<close> without the flag \<^verbatim>\<open>g\<close> and a plain text \<open>t\<close>.\<close>

definition replaceFirst :: "bool \<Rightarrow> regex \<Rightarrow> string \<Rightarrow> string \<Rightarrow> string" where
  "replaceFirst ic r t s =
     (case regexMatch ic r s of None \<Rightarrow> s | Some m \<Rightarrow> before m @ t @ after m)"

text \<open>\<^verbatim>\<open>for (const pattern of patterns) { const match = s.match(pattern); if (match) ... break }\<close>\<close>

fun firstMatch :: "bool \<Rightarrow> regex list \<Rightarrow> string \<Rightarrow> rmatch option" where
  "firstMatch ic [] s = None"
| "firstMatch ic (r # rs) s =
     (case regexMatch ic r s of Some m \<Rightarrow> Some m | None \<Rightarrow> firstMatch ic rs s)"

text \<open>Shorthands for the pieces the patterns are made of.\<close>

definition chr :: "char \<Rightarrow> regex" where
  "chr c = Atom (Pos [Ch c])"

definition digit :: regex where
  "digit = Atom (Pos [Digit])"

definition digits :: regex where
  "digits = Rep 1 None digit"

definition spaces0 :: regex where
  "spaces0 = Rep 0 None (Atom (Pos [Space]))"

definition spaces1 :: regex where
  "spaces1 = Rep 1 None (Atom (Pos [Space]))"

definition opt :: "regex \<Rightarrow> regex" where
  "opt r = Rep 0 (Some 1) r"

definition oneOfStr :: "string list \<Rightarrow> regex" where
  "oneOfStr ws = AnyOf (map Str ws)"

section \<open>Field extractors (processdata.js)\<close>

text \<open>\<^verbatim>\<open>str.replace(/[^\d.]/g, '')\<close>.\<close>

definition stripNonNumeric :: "string \<Rightarrow> string" where
  "stripNonNumeric s = filter (\<lambda>c. isDigit c \<or> c = CHR ''.'') s"

text \<open>
  \<^verbatim>\<open>parsePriceGeneric\<close>, with the two built-in operations on doubles as parameters:
  \<open>readFloat\<close> is \<^verbatim>\<open>parseFloat\<close> on the stripped text and \<open>multiply\<close> is the product
  \<^verbatim>\<open>*\<close> of two doubles, rounded as the machine rounds it. The comparisons with the
  constants and the remainder \<^verbatim>\<open>%\<close> are exact on doubles. For \<^verbatim>\<open>Infinity\<close> every test up
  to \<^verbatim>\<open>price < 100000\<close> fails and \<^verbatim>\<open>price > 500000000\<close> holds.
\<close>

definition parsePriceWith ::
  "(string \<Rightarrow> number) \<Rightarrow> (rat \<Rightarrow> rat \<Rightarrow> rat) \<Rightarrow> string option \<Rightarrow> error + rat option" where
  "parsePriceWith readFloat multiply priceStr =
     (if falsy priceStr then Inr None
      else tryCatch
        (bindR (deref priceStr) (\<lambda>str.
           let cleanPrice = stripNonNumeric str in
           case readFloat cleanPrice of
             NaN \<Rightarrow> Inr None
           | Infinite \<Rightarrow> Inr None
           | Finite price \<Rightarrow>
               if price \<le> 0 then Inr None
               else if price < 100 then Inr None
               else if price < 1000 then Inr (Some (multiply price 100000))
               else if price < 100000 then
                 (if price \<le> 200 \<and> jsRem price 10 = 0 then Inr (Some (multiply price 100000))
                  else Inr (Some price))
               else if price > 500000000 then Inr None
               else Inr (Some price)))
        (\<lambda>error. Inr None))"

text \<open>\<open>parsePriceGeneric\<close> with numbers read and multiplied exactly.\<close>

definition parsePriceGeneric :: "string option \<Rightarrow> error + rat option" where
  "parsePriceGeneric priceStr = parsePriceWith exactFloat (*) priceStr"

text \<open>\<^verbatim>\<open>/(\d+)\s*BHK/i\<close>\<close>

definition bhkPattern :: regex where
  "bhkPattern = Seqs [Group 1 digits, spaces0, Str ''BHK'']"

definition extractBHKGeneric :: "string option \<Rightarrow> error + int option" where
  "extractBHKGeneric configuration =
     (if falsy configuration then Inr None
      else bindR (deref configuration) (\<lambda>configStr.
        case regexMatch True bhkPattern configStr of
          None \<Rightarrow> Inr None
        | Some bhkMatch \<Rightarrow> Inr (map_option parseInt (group bhkMatch 1))))"

definition parseAreaGeneric :: "string option \<Rightarrow> error + rat option" where
  "parseAreaGeneric areaStr =
     (if falsy areaStr then Inr None
      else tryCatch
        (bindR (deref areaStr) (\<lambda>str.
           case parseFloat (stripNonNumeric str) of
             None \<Rightarrow> Inr None
           | Some area \<Rightarrow>
               if area \<le> 0 then Inr None
               else if area < 300 then Inr None
               else if area > 5000 then Inr None
               else Inr (Some area)))
        (\<lambda>error. Inr None))"

definition parsePossessionGeneric :: "string option \<Rightarrow> error + string" where
  "parsePossessionGeneric status =
     (if falsy status then Inr ''Unknown''
      else bindR (deref status) (\<lambda>str.
        let statusStr = toLowerCase str in
        if includesStr statusStr ''ready'' then Inr ''Ready to Move''
        else if includesStr statusStr ''under'' then Inr ''Under Construction''
        else if includesStr statusStr ''new'' then Inr ''New Launch''
        else Inr ''Unknown''))"

text \<open>\<^verbatim>\<open>/\b(a|b|...)\b/\<close>\<close>

definition wholeWord :: "string list \<Rightarrow> regex" where
  "wholeWord ws = Seqs [WordB, Group 1 (oneOfStr ws), WordB]"

definition cityPatterns :: "(regex \<times> string) list" where
  "cityPatterns =
     [(wholeWord [''mumbai'', ''bombay''], ''Mumbai''),
      (wholeWord [''pune'', ''poona''], ''Pune''),
      (wholeWord [''bangalore'', ''bengaluru''], ''Bangalore''),
      (wholeWord [''delhi'', ''new delhi''], ''Delhi''),
      (wholeWord [''hyderabad'', ''secunderabad''], ''Hyderabad''),
      (wholeWord [''chennai'', ''madras''], ''Chennai''),
      (wholeWord [''kolkata'', ''calcutta''], ''Kolkata''),
      (wholeWord [''ahmedabad'', ''ahmadabad''], ''Ahmedabad''),
      (wholeWord [''surat''], ''Surat''),
      (wholeWord [''jaipur''], ''Jaipur'')]"

definition looksLikeCity :: "string \<Rightarrow> bool" where
  "looksLikeCity text =
     regexTest True
       (wholeWord [''mumbai'', ''pune'', ''bangalore'', ''delhi'', ''hyderabad'', ''chennai'',
                   ''kolkata'', ''ahmedabad'', ''surat'', ''jaipur''])
       (toLowerCase text)"

definition invalidWords :: "string list" where
  "invalidWords =
     [''survey'', ''plot'', ''sector'', ''number'', ''no'', ''road'', ''street'', ''lane'',
      ''avenue'', ''marg'', ''near'', ''beside'', ''opposite'', ''at'', ''in'', ''area'',
      ''locality'', ''and'', ''the'', ''a'', ''an'', ''to'', ''of'', ''for'', ''beside godrej'',
      ''opposite to mca'', ''stadium'', ''school'', ''college'', ''hospital'', ''mamurdi'',
      ''thite'', ''nagar'', ''sai'']"

text \<open>The second parameter (the city found) is not used by the source either.\<close>

definition isValidLocality :: "string \<Rightarrow> string option \<Rightarrow> bool" where
  "isValidLocality locality city =
     (if locality = [] \<or> length locality < 3 then False
      else
        let localityLower = toLowerCase locality;
            ws = splitSpaces [] localityLower;
            hasValidWords = list_ex (\<lambda>word. length word > 2 \<and> word \<notin> set invalidWords) ws
        in
        if \<not> hasValidWords then False
        else if looksLikeCity localityLower then False
        else if \<not> list_ex (\<lambda>c. isLower c \<or> isUpper c) locality then False
        else True)"

text \<open>
  \<^verbatim>\<open>str.replace(/\w\S*/g, txt => txt.charAt(0).toUpperCase() + txt.substr(1).toLowerCase())\<close>:
  a match starts at a word character and runs to the next white space.
\<close>

function capitalizeWords :: "string \<Rightarrow> string" where
  "capitalizeWords [] = []"
| "capitalizeWords (c # cs) =
     (if isWordChar c
      then toUpperChar c # toLowerCase (takeWhile (\<lambda>x. \<not> isSpace x) cs)
           @ capitalizeWords (dropWhile (\<lambda>x. \<not> isSpace x) cs)
      else c # capitalizeWords cs)"
  by pat_completeness auto
termination
  by (relation "measure length") (auto simp: le_imp_less_Suc length_dropWhile_le)

definition locationWords :: "string list" where
  "locationWords =
     [''near'', ''beside'', ''opposite to'', ''at'', ''in'', ''area'', ''locality'', ''sector'']"

text \<open>\<^verbatim>\<open>(?=,|\.|$)\<close>\<close>

definition beforeCommaDotEnd :: regex where
  "beforeCommaDotEnd = Look (AnyOf [chr CHR '','', chr CHR ''.'', Eol])"

definition lowerOrSpace :: regex where
  "lowerOrSpace = Atom (Pos [Range CHR ''a'' CHR ''z'', Space])"

definition capitalized :: regex where
  "capitalized = Seq (Atom (Pos [Range CHR ''A'' CHR ''Z'']))
                     (Rep 1 None (Atom (Pos [Range CHR ''a'' CHR ''z''])))"

text \<open>The five locality patterns, each with its flag \<^verbatim>\<open>i\<close>.\<close>

definition localityPatterns :: "(bool \<times> regex) list" where
  "localityPatterns =
     [(True, Seqs [oneOfStr locationWords, spaces1, Group 1 (Rep 3 (Some 30) lowerOrSpace),
                   beforeCommaDotEnd]),
      (True, Seqs [Group 1 (Rep 1 None lowerOrSpace),
                   Seq spaces1
                     (Group 2 (oneOfStr [''nagar'', ''colony'', ''society'', ''vihar'', ''enclave'',
                        ''estate'', ''park'', ''gardens'', ''road'', ''street'', ''lane''])),
                   beforeCommaDotEnd]),
      (True, Seqs [Bol, Group 1 (Rep 5 (Some 50) (Atom (Neg [Ch CHR '','']))),
                   Look (Seqs [opt (chr CHR '',''), spaces0,
                     oneOfStr [''mumbai'', ''pune'', ''bangalore'', ''delhi'', ''hyderabad'',
                               ''chennai'', ''kolkata'']])]),
      (False, Seqs [WordB,
                    Group 1 (Seq capitalized (Rep 0 None (Seq spaces1 capitalized))),
                    Look (Alt (chr CHR '','')
                      (Seq spaces1
                        (oneOfStr [''mumbai'', ''pune'', ''bangalore'', ''delhi'', ''hyderabad''])))]),
      (True, Seqs [oneOfStr [''survey no.'', ''plot no.'', ''sector no.''], spaces0,
                   Rep 1 None (Atom (Pos [Range CHR ''a'' CHR ''z'', Range CHR ''0'' CHR ''9''])),
                   spaces0, chr CHR '','', spaces0,
                   Group 1 (Rep 1 None (Atom (Neg [Ch CHR '',''])))])]"

text \<open>
  The clean-up of a candidate:
  \<^verbatim>\<open>.replace(/^\s*(?:near|beside|opposite to|at|in|area|locality|sector)\s+/i, '')\<close>
  \<^verbatim>\<open>.replace(/\s+/, ' ').trim()\<close>
\<close>

definition cleanLocality :: "string \<Rightarrow> string" where
  "cleanLocality s =
     trim (replaceFirst False spaces1 '' ''
       (replaceFirst True (Seqs [Bol, spaces0, oneOfStr locationWords, spaces1]) [] s))"

text \<open>The loop over the locality patterns; \<open>None\<close> when no pattern gives a valid locality.\<close>

fun localityFromPatterns :: "(bool \<times> regex) list \<Rightarrow> string \<Rightarrow> string option \<Rightarrow> string option" where
  "localityFromPatterns [] fullAddress foundCity = None"
| "localityFromPatterns ((ic, pattern) # ps) fullAddress foundCity =
     (case regexMatch ic pattern fullAddress of
        None \<Rightarrow> localityFromPatterns ps fullAddress foundCity
      | Some m \<Rightarrow>
          (case group m 1 of
             None \<Rightarrow> localityFromPatterns ps fullAddress foundCity
           | Some g \<Rightarrow>
               if g = [] then localityFromPatterns ps fullAddress foundCity
               else
                 let potentialLocality = cleanLocality (trim g) in
                 if isValidLocality potentialLocality foundCity
                 then Some (capitalizeWords potentialLocality)
                 else localityFromPatterns ps fullAddress foundCity))"

text \<open>The fallback loop over the parts of the address between commas.\<close>

fun localityFromParts :: "string list \<Rightarrow> string option \<Rightarrow> string option" where
  "localityFromParts [] foundCity = None"
| "localityFromParts (part # parts) foundCity =
     (let trimmed = trim part in
      if trimmed \<noteq> [] \<and> isValidLocality trimmed foundCity then Some (capitalizeWords trimmed)
      else localityFromParts parts foundCity)"

text \<open>\<^verbatim>\<open>[fullAddress, projectName].filter(Boolean).join(' ')\<close> for a non-empty address.\<close>

definition joinTruthy :: "string \<Rightarrow> string option \<Rightarrow> string" where
  "joinTruthy fullAddress projectName =
     (if falsy projectName then fullAddress
      else fullAddress @ '' '' @ (case projectName of Some n \<Rightarrow> n | None \<Rightarrow> []))"

text \<open>The result is the pair of \<^verbatim>\<open>city\<close> and \<^verbatim>\<open>locality\<close>.\<close>

definition extractLocationGeneric ::
  "string option \<Rightarrow> string option \<Rightarrow> error + (string option \<times> string option)" where
  "extractLocationGeneric fullAddress projectName =
     (if falsy fullAddress then Inr (None, None)
      else bindR (deref fullAddress) (\<lambda>addr.
        let searchText = toLowerCase (joinTruthy addr projectName);
            foundCity = map_option snd (find (\<lambda>(pattern, city). regexTest False pattern searchText)
                                             cityPatterns);
            foundLocality = localityFromPatterns localityPatterns addr foundCity;
            foundLocality = (if falsy foundLocality
                             then localityFromParts (splitOn CHR '','' addr) foundCity
                             else foundLocality)
        in Inr (foundCity, foundLocality)))"

definition amenityKeywords :: "(string \<times> string list) list" where
  "amenityKeywords =
     [(''Swimming Pool'', [''swimming'', ''pool'']),
      (''Gym'', [''gym'', ''fitness'']),
      (''Park'', [''park'', ''garden'']),
      (''Club House'', [''club'', ''clubhouse'']),
      (''Lift'', [''lift'', ''elevator'']),
      (''Parking'', [''parking'', ''car park'']),
      (''Play Area'', [''play'', ''children''])]"

text \<open>\<^verbatim>\<open>bhk >= 3\<close> is false for a \<^verbatim>\<open>bhk\<close> that is \<^verbatim>\<open>null\<close>.\<close>

definition extractAmenitiesGeneric :: "string option \<Rightarrow> int option \<Rightarrow> error + string list" where
  "extractAmenitiesGeneric aboutProperty bhk =
     bindR (if falsy aboutProperty then Inr []
            else bindR (deref aboutProperty) (\<lambda>str.
              let about = toLowerCase str in
              Inr (map fst (filter (\<lambda>(amenity, keywords).
                     list_ex (\<lambda>keyword. includesStr about keyword) keywords) amenityKeywords))))
       (\<lambda>found.
          let baseAmenities = [''Security'', ''Water Supply'', ''Power Backup''] @ found;
              baseAmenities = (if (case bhk of None \<Rightarrow> False | Some b \<Rightarrow> b \<ge> 3)
                               then baseAmenities @ [''Club House'', ''Swimming Pool'']
                               else baseAmenities)
          in Inr (dedupe [] baseAmenities))"

definition extractBuilderGeneric :: "string option \<Rightarrow> error + string" where
  "extractBuilderGeneric projectName =
     (if falsy projectName then Inr ''Unknown Builder''
      else bindR (deref projectName) (\<lambda>str.
        let name = trim str;
            ws = splitOn CHR '' '' name
        in if length ws > 1 then Inr (hd ws @ '' Builders'') else Inr (name @ '' Builders'')))"

text \<open>\<^verbatim>\<open>/["']([^"']+)["']/\<close>\<close>

definition quotedPattern :: regex where
  "quotedPattern =
     Seqs [Atom (Pos [Ch CHR 0x22, Ch CHR 0x27]),
           Group 1 (Rep 1 None (Atom (Neg [Ch CHR 0x22, Ch CHR 0x27]))),
           Atom (Pos [Ch CHR 0x22, Ch CHR 0x27])]"

definition parseReraId :: "string option \<Rightarrow> error + string option" where
  "parseReraId reraId =
     (if falsy reraId then Inr None
      else tryCatch
        (bindR (deref reraId) (\<lambda>str.
           case regexMatch False quotedPattern str of
             Some m \<Rightarrow> Inr (group m 1)
           | None \<Rightarrow> Inr reraId))
        (\<lambda>error. Inr reraId))"

text \<open>\<^verbatim>\<open>/\[(.*)\]/\<close>\<close>

definition bracketPattern :: regex where
  "bracketPattern = Seqs [chr CHR ''['', Group 1 (Rep 0 None (Atom Dot)), chr CHR '']'']"

text \<open>
  \<^verbatim>\<open>JSON.parse\<close> is a parameter: it returns a value or throws a SyntaxError.
  The empty array is \<open>JArr []\<close>.
\<close>

definition parseImages :: "(string \<Rightarrow> error + json) \<Rightarrow> string option \<Rightarrow> error + json" where
  "parseImages jsonParse imagesStr =
     (if falsy imagesStr then Inr (JArr [])
      else tryCatch
        (bindR (deref imagesStr) (\<lambda>str.
           case regexMatch False bracketPattern str of
             Some m \<Rightarrow> jsonParse (matched m)
           | None \<Rightarrow> Inr (JArr [])))
        (\<lambda>error. Inr (JArr [])))"

section \<open>The filter object and its extraction (geminiService.js)\<close>

text \<open>The filter object; a key that is absent is \<open>None\<close>.\<close>

record filters =
  f_city :: "string option"
  f_bhk :: "int option"
  f_maxPrice :: "rat option"
  f_locality :: "string option"
  f_possession :: "string option"
  f_amenities :: "string list option"

text \<open>The empty filter object \<^verbatim>\<open>{}\<close>.\<close>

definition noFilters :: filters where
  "noFilters = \<lparr>f_city = None, f_bhk = None, f_maxPrice = None, f_locality = None,
                 f_possession = None, f_amenities = None\<rparr>"

text \<open>
  The rupee sign of the budget patterns is a character outside the 8-bit range of the
  model: no character of a modelled string is one, so the optional sign matches the
  empty string only.
\<close>

definition rupee :: regex where
  "rupee = Atom (Pos [])"

definition bhkPatterns :: "regex list" where
  "bhkPatterns =
     [Seqs [Group 1 digit, spaces0, Str ''bhk''],
      Seqs [Group 1 digit, spaces0, Str ''bedroom''],
      Seqs [Group 1 digit, spaces0, Str ''bed''],
      Seqs [Group 1 digit, spaces0, chr CHR ''b'', opt (chr CHR ''/''), chr CHR ''h'',
            opt (chr CHR ''/''), chr CHR ''k'']]"

text \<open>\<^verbatim>\<open>(\d+(?:\.\d+)?)\<close>\<close>

definition amountGroup :: regex where
  "amountGroup = Group 1 (Seq digits (opt (Seq (chr CHR ''.'') digits)))"

definition budgetPatterns :: "regex list" where
  "budgetPatterns =
     [Seqs [Str ''under'', spaces0, opt rupee, spaces0, amountGroup, spaces0,
            Group 2 (oneOfStr [''cr'', ''crore''])],
      Seqs [Str ''upto'', spaces0, opt rupee, spaces0, amountGroup, spaces0,
            Group 2 (oneOfStr [''cr'', ''crore''])],
      Seqs [Str ''below'', spaces0, opt rupee, spaces0, amountGroup, spaces0,
            Group 2 (oneOfStr [''cr'', ''crore''])],
      Seqs [Str ''under'', spaces0, opt rupee, spaces0, amountGroup, spaces0,
            Group 2 (oneOfStr [''lakh'', ''lac''])],
      Seqs [amountGroup, spaces0, Group 2 (oneOfStr [''cr'', ''crore''])],
      Seqs [amountGroup, spaces0, Group 2 (oneOfStr [''lakh'', ''lac''])]]"

text \<open>
  \<^verbatim>\<open>(unit === 'cr' || unit === 'crore') ? amount * 10000000 : amount * 100000\<close>
\<close>

definition toRupees :: "rat \<Rightarrow> string \<Rightarrow> rat" where
  "toRupees amount unit =
     (if unit = ''cr'' \<or> unit = ''crore'' then amount * 10000000 else amount * 100000)"

text \<open>
  The body of the budget loop for a match: the amount of group 1 in the unit of group 2.
  Both groups take part in every match of a budget pattern and group 1 is a decimal
  number; the \<open>None\<close> branches stand for the \<^verbatim>\<open>NaN\<close> that never arises.
\<close>

definition budgetOf :: "rmatch \<Rightarrow> rat option" where
  "budgetOf m =
     (case (group m 1, group m 2) of
        (Some g1, Some g2) \<Rightarrow>
          (case parseFloat g1 of
             Some amount \<Rightarrow> Some (toRupees amount (toLowerCase g2))
           | None \<Rightarrow> None)
      | _ \<Rightarrow> None)"

definition cities :: "string list" where
  "cities = [''pune'', ''mumbai'', ''bangalore'', ''delhi'', ''hyderabad'', ''chennai'']"

definition localities :: "string list" where
  "localities =
     [''chembur'', ''shivajinagar'', ''ashoknagar'', ''model colony'', ''sindhi society'',
      ''wakad'', ''baner'', ''hinjewadi'', ''kharadi'', ''kothrud'', ''andheri'', ''bandra'']"

definition enhancedFilterExtraction :: "string \<Rightarrow> filters" where
  "enhancedFilterExtraction message =
     (let fs = noFilters;
          lowerMessage = toLowerCase message;
          fs = (case find (\<lambda>city. includesStr lowerMessage city) cities of
                  Some city \<Rightarrow> fs\<lparr>f_city := Some city\<rparr>
                | None \<Rightarrow> fs);
          fs = (case firstMatch True bhkPatterns lowerMessage of
                  Some m \<Rightarrow> fs\<lparr>f_bhk := map_option parseInt (group m 1)\<rparr>
                | None \<Rightarrow> fs);
          fs = (case firstMatch True budgetPatterns lowerMessage of
                  Some m \<Rightarrow> fs\<lparr>f_maxPrice := budgetOf m\<rparr>
                | None \<Rightarrow> fs);
          fs = (case find (\<lambda>locality. includesStr lowerMessage locality) localities of
                  Some locality \<Rightarrow> fs\<lparr>f_locality := Some locality\<rparr>
                | None \<Rightarrow> fs);
          fs = (if includesStr lowerMessage ''ready'' \<or> includesStr lowerMessage ''move in''
                then fs\<lparr>f_possession := Some ''Ready to Move''\<rparr>
                else if includesStr lowerMessage ''under construction''
                then fs\<lparr>f_possession := Some ''Under Construction''\<rparr>
                else fs)
      in fs)"

definition specificKeywords :: "string list" where
  "specificKeywords =
     [''address of'', ''details of'', ''information about'', ''show me'',
      ''tell me about'', ''where is'', ''location of'', ''full address of'']"

definition isSpecificQuery :: "string \<Rightarrow> bool" where
  "isSpecificQuery userMessage =
     list_ex (\<lambda>keyword. includesStr (toLowerCase userMessage) keyword) specificKeywords"

text \<open>
  \<^verbatim>\<open>extractFilters\<close>. The call of the LLM service is a parameter \<open>useGroqLLM\<close>: it
  returns a filter object or throws. The result is the filter object returned together
  with the calls made on the way, in order.
\<close>

datatype call = LlmCall string | FallbackParserCall string

definition extractFilters ::
  "(string \<Rightarrow> error + filters) \<Rightarrow> string \<Rightarrow> filters \<times> call list" where
  "extractFilters useGroqLLM userMessage =
     (if isSpecificQuery userMessage then (noFilters, [])
      else
        (case useGroqLLM userMessage of
           Inr fs \<Rightarrow> (fs, [LlmCall userMessage])
         | Inl error \<Rightarrow>
             (enhancedFilterExtraction userMessage,
              [LlmCall userMessage, FallbackParserCall userMessage])))"

section \<open>Property entries\<close>

text \<open>
  A property entry, with the fields of the object that \<^verbatim>\<open>createPropertyEntry\<close> builds
  (\<open>propertyId\<close> is its field \<^verbatim>\<open>id\<close>). A field that is \<^verbatim>\<open>null\<close> or \<^verbatim>\<open>undefined\<close> (or absent from the object) is \<open>None\<close>;
  for the numeric fields \<open>None\<close> is an absent field, for which \<^verbatim>\<open>!x\<close> holds and every
  comparison is false.
\<close>

record property =
  propertyId :: "string option"
  projectName :: "string option"
  city :: "string option"
  locality :: "string option"
  bhk :: "int option"
  price :: "rat option"
  possession :: "string option"
  area :: "rat option"
  amenities :: "string list option"
  slug :: "string option"
  builder :: "string option"
  fullAddress :: "string option"
  pincode :: "string option"
  projectType :: "string option"
  status :: "string option"
  reraId :: "string option"
  projectId :: "string option"
  configId :: "string option"
  variantId :: "string option"
  propertyImages :: "json option"
  floorPlanImage :: "string option"

section \<open>Merger and validator (processdata.js)\<close>

text \<open>The rows of the four CSV files; a column that is missing is \<open>None\<close>.\<close>

record projectRow =
  prj_id :: "string option"
  prj_projectName :: "string option"
  prj_slug :: "string option"
  prj_projectType :: "string option"
  prj_status :: "string option"
  prj_reraId :: "string option"

record addressRow =
  adr_projectId :: "string option"
  adr_fullAddress :: "string option"
  adr_pincode :: "string option"

record configRow =
  cfg_id :: "string option"
  cfg_projectId :: "string option"
  cfg_type :: "string option"

record variantRow =
  var_id :: "string option"
  var_configurationId :: "string option"
  var_price :: "string option"
  var_carpetArea :: "string option"
  var_aboutProperty :: "string option"
  var_propertyImages :: "string option"
  var_floorPlanImage :: "string option"

text \<open>\<^verbatim>\<open>row?.field\<close>\<close>

definition optField :: "'r option \<Rightarrow> ('r \<Rightarrow> string option) \<Rightarrow> string option" where
  "optField row field = (case row of None \<Rightarrow> None | Some r \<Rightarrow> field r)"

text \<open>\<^verbatim>\<open>a || b\<close> on strings.\<close>

definition orElse :: "string option \<Rightarrow> string option \<Rightarrow> string option" where
  "orElse a b = (if falsy a then b else a)"

text \<open>\<^verbatim>\<open>!n\<close> for a number or \<^verbatim>\<open>null\<close>.\<close>

definition falsyNum :: "'a::zero option \<Rightarrow> bool" where
  "falsyNum n = (case n of None \<Rightarrow> True | Some v \<Rightarrow> v = 0)"

text \<open>
  \<^verbatim>\<open>createPropertyEntry\<close>; \<open>None\<close> is \<^verbatim>\<open>null\<close>. The whole body stands in a
  \<^verbatim>\<open>try\<close> whose handler returns \<^verbatim>\<open>null\<close>.
\<close>

definition createPropertyEntry ::
  "(string \<Rightarrow> error + json) \<Rightarrow> projectRow \<Rightarrow> configRow \<Rightarrow> variantRow option \<Rightarrow>
   addressRow option \<Rightarrow> error + property option" where
  "createPropertyEntry jsonParse project config variant address =
     tryCatch
       (bindR (extractBHKGeneric (cfg_type config)) (\<lambda>bhkV.
        bindR (parsePriceGeneric (optField variant var_price)) (\<lambda>priceV.
        bindR (parseAreaGeneric (optField variant var_carpetArea)) (\<lambda>areaV.
        bindR (extractLocationGeneric (optField address adr_fullAddress) (prj_projectName project))
          (\<lambda>location.
        if falsyNum bhkV \<or> falsyNum priceV \<or> falsyNum areaV \<or> falsy (fst location) then Inr None
        else
          bindR (parsePossessionGeneric (prj_status project)) (\<lambda>possessionV.
          bindR (extractAmenitiesGeneric (optField variant var_aboutProperty) bhkV) (\<lambda>amenitiesV.
          bindR (extractBuilderGeneric (prj_projectName project)) (\<lambda>builderV.
          bindR (parseReraId (prj_reraId project)) (\<lambda>reraIdV.
          bindR (parseImages jsonParse (optField variant var_propertyImages)) (\<lambda>imagesV.
          Inr (Some
            \<lparr>propertyId = orElse (optField variant var_id) (cfg_id config),
             projectName = prj_projectName project,
             city = fst location,
             locality = snd location,
             bhk = bhkV,
             price = priceV,
             possession = Some possessionV,
             area = areaV,
             amenities = Some amenitiesV,
             slug = prj_slug project,
             builder = Some builderV,
             fullAddress = optField address adr_fullAddress,
             pincode = optField address adr_pincode,
             projectType = prj_projectType project,
             status = prj_status project,
             reraId = reraIdV,
             projectId = prj_id project,
             configId = cfg_id config,
             variantId = optField variant var_id,
             propertyImages = Some imagesV,
             floorPlanImage = optField variant var_floorPlanImage\<rparr>)))))))))))
       (\<lambda>error. Inr None)"

text \<open>\<^verbatim>\<open>const property = this.createPropertyEntry(...); if (property) mergedData.push(property)\<close>\<close>

definition pushEntry :: "error + property option \<Rightarrow> error + property list" where
  "pushEntry r = bindR r (\<lambda>property. Inr (case property of None \<Rightarrow> [] | Some e \<Rightarrow> [e]))"

text \<open>The entries that such a step adds to the list: one, or none for \<^verbatim>\<open>null\<close>.\<close>

definition pushed :: "error + property option \<Rightarrow> property list" where
  "pushed r = (case r of Inr (Some d) \<Rightarrow> [d] | _ \<Rightarrow> [])"

text \<open>\<open>forEach\<close> over a list, collecting what each step pushes; a step that throws ends it.\<close>

fun forEachPush :: "('a \<Rightarrow> error + 'b list) \<Rightarrow> 'a list \<Rightarrow> error + 'b list" where
  "forEachPush f [] = Inr []"
| "forEachPush f (x # xs) =
     bindR (f x) (\<lambda>ys. bindR (forEachPush f xs) (\<lambda>zs. Inr (ys @ zs)))"

text \<open>The entries pushed for one configuration of a project.\<close>

definition configEntries ::
  "(string \<Rightarrow> error + json) \<Rightarrow> variantRow list \<Rightarrow> projectRow \<Rightarrow> addressRow option \<Rightarrow>
   configRow \<Rightarrow> error + property list" where
  "configEntries jsonParse variants project address config =
     (let configVariants = filter (\<lambda>variant. var_configurationId variant = cfg_id config) variants
      in if length configVariants = 0
         then pushEntry (createPropertyEntry jsonParse project config None address)
         else forEachPush
                (\<lambda>variant. pushEntry (createPropertyEntry jsonParse project config (Some variant) address))
                configVariants)"

text \<open>The entries pushed for one project.\<close>

definition projectEntries ::
  "(string \<Rightarrow> error + json) \<Rightarrow> addressRow list \<Rightarrow> configRow list \<Rightarrow> variantRow list \<Rightarrow>
   projectRow \<Rightarrow> error + property list" where
  "projectEntries jsonParse addresses configurations variants project =
     (let address = find (\<lambda>addr. adr_projectId addr = prj_id project) addresses;
          projectConfigs = filter (\<lambda>config. cfg_projectId config = prj_id project) configurations
      in forEachPush (configEntries jsonParse variants project address) projectConfigs)"

text \<open>\<^verbatim>\<open>mergedData\<close>: the entries before the validator.\<close>

definition mergedData ::
  "(string \<Rightarrow> error + json) \<Rightarrow> projectRow list \<Rightarrow> addressRow list \<Rightarrow> configRow list \<Rightarrow>
   variantRow list \<Rightarrow> error + property list" where
  "mergedData jsonParse projects addresses configurations variants =
     forEachPush (projectEntries jsonParse addresses configurations variants) projects"

definition MIN_REASONABLE_PRICE :: rat where
  "MIN_REASONABLE_PRICE = 500000"

definition MAX_REASONABLE_PRICE :: rat where
  "MAX_REASONABLE_PRICE = 500000000"

definition MIN_REASONABLE_AREA :: rat where
  "MIN_REASONABLE_AREA = 300"

definition MAX_REASONABLE_AREA :: rat where
  "MAX_REASONABLE_AREA = 5000"

text \<open>The predicate of the \<^verbatim>\<open>filter\<close> call in \<^verbatim>\<open>filterValidProperties\<close>.\<close>

definition keepProperty :: "property \<Rightarrow> bool" where
  "keepProperty property =
     (if (case price property of
            None \<Rightarrow> True
          | Some x \<Rightarrow> x = 0 \<or> x < MIN_REASONABLE_PRICE \<or> x > MAX_REASONABLE_PRICE)
      then False
      else if (case area property of
                 None \<Rightarrow> True
               | Some a \<Rightarrow> a = 0 \<or> a < MIN_REASONABLE_AREA \<or> a > MAX_REASONABLE_AREA)
      then False
      else if (case bhk property of None \<Rightarrow> True | Some b \<Rightarrow> b = 0 \<or> b < 1 \<or> b > 10)
      then False
      else if falsy (city property) then False
      else True)"

definition filterValidProperties :: "property list \<Rightarrow> property list" where
  "filterValidProperties properties = filter keepProperty properties"

text \<open>
  \<^verbatim>\<open>mergeData\<close>: the merged entries, passed through the validator. (The analysis of
  the data patterns before the merge and the statistics after it only write to the log.)
\<close>

definition mergeData ::
  "(string \<Rightarrow> error + json) \<Rightarrow> projectRow list \<Rightarrow> addressRow list \<Rightarrow> configRow list \<Rightarrow>
   variantRow list \<Rightarrow> error + property list" where
  "mergeData jsonParse projects addresses configurations variants =
     bindR (mergedData jsonParse projects addresses configurations variants)
       (\<lambda>merged. Inr (filterValidProperties merged))"

section \<open>Query filter engine (server.js)\<close>

text \<open>
  \<^verbatim>\<open>field && field.toLowerCase().includes(needle.toLowerCase())\<close>, for a field of a
  property and a filter value that is a string.
\<close>

definition containsCI :: "string option \<Rightarrow> string \<Rightarrow> bool" where
  "containsCI field needle =
     (case field of
        None \<Rightarrow> False
      | Some s \<Rightarrow> s \<noteq> [] \<and> includesStr (toLowerCase s) (toLowerCase needle))"

text \<open>The five \<^verbatim>\<open>if\<close> blocks of \<^verbatim>\<open>applyFilters\<close>, each a step on \<^verbatim>\<open>results\<close>.\<close>

definition byCity :: "filters \<Rightarrow> property list \<Rightarrow> property list" where
  "byCity fs results =
     (case f_city fs of
        Some c \<Rightarrow> if c \<noteq> [] then filter (\<lambda>property. containsCI (city property) c) results
                  else results
      | None \<Rightarrow> results)"

definition byBhk :: "filters \<Rightarrow> property list \<Rightarrow> property list" where
  "byBhk fs results =
     (case f_bhk fs of
        Some b \<Rightarrow> if b \<noteq> 0 then filter (\<lambda>property. bhk property = Some b) results
                  else results
      | None \<Rightarrow> results)"

definition byMaxPrice :: "filters \<Rightarrow> property list \<Rightarrow> property list" where
  "byMaxPrice fs results =
     (case f_maxPrice fs of
        Some m \<Rightarrow>
          if m \<noteq> 0
          then filter (\<lambda>property. case price property of None \<Rightarrow> False | Some x \<Rightarrow> x \<le> m) results
          else results
      | None \<Rightarrow> results)"

definition byLocality :: "filters \<Rightarrow> property list \<Rightarrow> property list" where
  "byLocality fs results =
     (case f_locality fs of
        Some l \<Rightarrow>
          if l \<noteq> [] \<and> l \<noteq> ''null''
          then filter (\<lambda>property. containsCI (locality property) l) results
          else results
      | None \<Rightarrow> results)"

definition byPossession :: "filters \<Rightarrow> property list \<Rightarrow> property list" where
  "byPossession fs results =
     (case f_possession fs of
        Some s \<Rightarrow>
          if s \<noteq> [] \<and> s \<noteq> ''null''
          then filter (\<lambda>property. containsCI (possession property) s) results
          else results
      | None \<Rightarrow> results)"

definition applyFilters :: "property list \<Rightarrow> filters \<Rightarrow> property list" where
  "applyFilters properties fs =
     (let results = properties;
          results = byCity fs results;
          results = byBhk fs results;
          results = byMaxPrice fs results;
          results = byLocality fs results;
          results = byPossession fs results
      in results)"

text \<open>The same steps, applied in a given order of the keys.\<close>

datatype filterKey = KCity | KBhk | KMaxPrice | KLocality | KPossession

fun applyKey :: "filters \<Rightarrow> filterKey \<Rightarrow> property list \<Rightarrow> property list" where
  "applyKey fs KCity = byCity fs"
| "applyKey fs KBhk = byBhk fs"
| "applyKey fs KMaxPrice = byMaxPrice fs"
| "applyKey fs KLocality = byLocality fs"
| "applyKey fs KPossession = byPossession fs"

definition applyInOrder :: "filterKey list \<Rightarrow> property list \<Rightarrow> filters \<Rightarrow> property list" where
  "applyInOrder keys properties fs = fold (applyKey fs) keys properties"

text \<open>
  A filter object with every key removed whose value does not pass the truthiness test
  of its \<^verbatim>\<open>if\<close> block.
\<close>

definition dropFalsy :: "filters \<Rightarrow> filters" where
  "dropFalsy fs =
     fs\<lparr>f_city := (if f_city fs = Some [] then None else f_city fs),
        f_bhk := (if f_bhk fs = Some 0 then None else f_bhk fs),
        f_maxPrice := (if f_maxPrice fs = Some 0 then None else f_maxPrice fs),
        f_locality := (if f_locality fs = Some [] \<or> f_locality fs = Some ''null'' then None
                       else f_locality fs),
        f_possession := (if f_possession fs = Some [] \<or> f_possession fs = Some ''null'' then None
                         else f_possession fs)\<rparr>"

text \<open>An object literal with the given city, bhk and price and no other field.\<close>

definition listing :: "string \<Rightarrow> int \<Rightarrow> rat \<Rightarrow> property" where
  "listing c b p =
     \<lparr>propertyId = None, projectName = None, city = Some c, locality = None, bhk = Some b,
      price = Some p, possession = None, area = None, amenities = None, slug = None,
      builder = None, fullAddress = None, pincode = None, projectType = None, status = None,
      reraId = None, projectId = None, configId = None, variantId = None,
      propertyImages = None, floorPlanImage = None\<rparr>"

section \<open>The properties of the specification, as predicates\<close>

text \<open>
  The invariant that the specification states for an entry of the validated collection:
  a city that is not null, bhk in [1, 10], area in [300, 5000] and price in
  [500000, 500000000].
\<close>

definition specValid :: "property \<Rightarrow> bool" where
  "specValid p =
     (city p \<noteq> None \<and>
      (case bhk p of None \<Rightarrow> False | Some b \<Rightarrow> 1 \<le> b \<and> b \<le> 10) \<and>
      (case area p of None \<Rightarrow> False | Some a \<Rightarrow> 300 \<le> a \<and> a \<le> 5000) \<and>
      (case price p of None \<Rightarrow> False | Some x \<Rightarrow> 500000 \<le> x \<and> x \<le> 500000000))"

text \<open>The fields of an entry that are not read from the variant row.\<close>

definition sameNonVariantFields :: "property \<Rightarrow> property \<Rightarrow> bool" where
  "sameNonVariantFields d e =
     (projectName d = projectName e \<and> city d = city e \<and> locality d = locality e \<and>
      bhk d = bhk e \<and> possession d = possession e \<and> slug d = slug e \<and>
      builder d = builder e \<and> fullAddress d = fullAddress e \<and> pincode d = pincode e \<and>
      projectType d = projectType e \<and> status d = status e \<and> reraId d = reraId e \<and>
      projectId d = projectId e \<and> configId d = configId e)"

section \<open>Example data\<close>

text \<open>The two entries of the example of the specification for the filter engine.\<close>

definition exampleListings :: "property list" where
  "exampleListings = [listing ''Pune'' 2 9000000, listing ''Mumbai'' 3 15000000]"

text \<open>An entry with a city, bhk, area and price and no other field.\<close>

definition flat :: "string \<Rightarrow> int \<Rightarrow> rat \<Rightarrow> rat \<Rightarrow> property" where
  "flat c b a p = (listing c b p)\<lparr>area := Some a\<rparr>"

text \<open>
  A stand-in for \<^verbatim>\<open>JSON.parse\<close> in the examples: it throws on every text. The
  examples call it on a text that is not JSON, or not at all (their rows have no image
  list).
\<close>

definition jsonParseRejecting :: "string \<Rightarrow> error + json" where
  "jsonParseRejecting s = Inl SyntaxError"

text \<open>One project with its address, a configuration with variants and one without.\<close>

definition exProject :: projectRow where
  "exProject =
     \<lparr>prj_id = Some ''p1'', prj_projectName = Some ''Sai Heights'', prj_slug = Some ''sai-heights'',
      prj_projectType = Some ''RESIDENTIAL'', prj_status = Some ''READY_TO_MOVE'',
      prj_reraId = Some ''P52100001234''\<rparr>"

definition exAddress :: addressRow where
  "exAddress =
     \<lparr>adr_projectId = Some ''p1'', adr_fullAddress = Some ''Near Phoenix Mall, Wakad, Pune'',
      adr_pincode = Some ''411057''\<rparr>"

definition exConfig :: configRow where
  "exConfig = \<lparr>cfg_id = Some ''c1'', cfg_projectId = Some ''p1'', cfg_type = Some ''2 BHK''\<rparr>"

definition exConfigBare :: configRow where
  "exConfigBare = \<lparr>cfg_id = Some ''c2'', cfg_projectId = Some ''p1'', cfg_type = Some ''3 BHK''\<rparr>"

definition exVariant :: "string \<Rightarrow> string \<Rightarrow> string \<Rightarrow> variantRow" where
  "exVariant i p a =
     \<lparr>var_id = Some i, var_configurationId = Some ''c1'', var_price = Some p,
      var_carpetArea = Some a, var_aboutProperty = Some ''Gym and pool'',
      var_propertyImages = None, var_floorPlanImage = None\<rparr>"

definition exVariants :: "variantRow list" where
  "exVariants =
     [exVariant ''v1'' ''8500000'' ''850'', exVariant ''v2'' ''9200000'' ''910 sq.ft'',
      exVariant ''v3'' ''on request'' ''910'', exVariant ''v4'' ''400000'' ''900'']"

text \<open>The entry that the example rows give for a variant with the given id, price and area.\<close>

definition exEntry :: "string \<Rightarrow> rat \<Rightarrow> rat \<Rightarrow> property" where
  "exEntry i p a =
     \<lparr>propertyId = Some i, projectName = Some ''Sai Heights'', city = Some ''Pune'',
      locality = Some ''Phoenix Mall'', bhk = Some 2, price = Some p,
      possession = Some ''Ready to Move'', area = Some a,
      amenities = Some [''Security'', ''Water Supply'', ''Power Backup'', ''Swimming Pool'', ''Gym''],
      slug = Some ''sai-heights'', builder = Some ''Sai Builders'',
      fullAddress = Some ''Near Phoenix Mall, Wakad, Pune'', pincode = Some ''411057'',
      projectType = Some ''RESIDENTIAL'', status = Some ''READY_TO_MOVE'',
      reraId = Some ''P52100001234'', projectId = Some ''p1'', configId = Some ''c1'',
      variantId = Some i, propertyImages = Some (JArr []), floorPlanImage = None\<rparr>"

section \<open>Theorems\<close>

text \<open>The equations that evaluate the reading of numbers on a literal string.\<close>

lemmas num_eval =
  stripNonNumeric_def parseFloat_def parseInt_def isDigit_def decimal_def digitVal_def

text \<open>The definitions of the example rows.\<close>

lemmas ex_rows =
  exProject_def exAddress_def exConfig_def exConfigBare_def exVariant_def exVariants_def
  exEntry_def

subsection \<open>Reading prices\<close>

lemma parseFloat_Nil: "parseFloat [] = None"
  by (simp add: parseFloat_def)

lemma parsePriceWith_Some:
  "parsePriceWith readFloat multiply (Some s) =
     (if s = [] then Inr None
      else case readFloat (stripNonNumeric s) of
        NaN \<Rightarrow> Inr None
      | Infinite \<Rightarrow> Inr None
      | Finite v \<Rightarrow>
          if v < 100 then Inr None
          else if v < 1000 then Inr (Some (multiply v 100000))
          else if v < 100000 then Inr (Some v)
          else if v > 500000000 then Inr None
          else Inr (Some v))"
  by (auto simp: parsePriceWith_def falsy_def deref_def bindR_def tryCatch_def Let_def
      split: number.splits)

lemma parsePriceGeneric_Some:
  "parsePriceGeneric (Some s) =
     (case parseFloat (stripNonNumeric s) of
        None \<Rightarrow> Inr None
      | Some v \<Rightarrow>
          if v < 100 then Inr None
          else if v < 1000 then Inr (Some (v * 100000))
          else if v < 100000 then Inr (Some v)
          else if v > 500000000 then Inr None
          else Inr (Some v))"
  by (simp add: parsePriceGeneric_def parsePriceWith_Some exactFloat_def stripNonNumeric_def
      parseFloat_Nil split: option.splits)

lemma parsePriceGeneric_None: "parsePriceGeneric None = Inr None"
  by (simp add: parsePriceGeneric_def parsePriceWith_def falsy_def)

text \<open>
  C2. For every raw input, every way \<^verbatim>\<open>parseFloat\<close> reads the stripped text as a double
  and every rounding of the product: \<open>parsePriceGeneric\<close> returns null for a missing or
  empty input, when the stripped text gives no number, and when the number is below
  100; a number in [100, 1000) is multiplied by 100000; a number in [1000, 100000) is
  multiplied by 100000 only if it is at most 200 and divisible by 10, and is returned as
  it is otherwise; a number above 500000000 (also \<^verbatim>\<open>Infinity\<close>) gives null; any other
  number is returned unchanged. The number is the double that \<^verbatim>\<open>parseFloat\<close> returns and
  the product is the product of doubles.
\<close>

theorem parsePrice_bands:
  "(falsy raw \<longrightarrow> parsePriceWith readFloat multiply raw = Inr None) \<and>
   (raw = Some s \<and> s \<noteq> [] \<longrightarrow>
      (readFloat (stripNonNumeric s) = NaN \<longrightarrow>
         parsePriceWith readFloat multiply raw = Inr None) \<and>
      (readFloat (stripNonNumeric s) = Infinite \<longrightarrow>
         parsePriceWith readFloat multiply raw = Inr None) \<and>
      (readFloat (stripNonNumeric s) = Finite v \<longrightarrow>
         (v < 100 \<longrightarrow> parsePriceWith readFloat multiply raw = Inr None) \<and>
         (100 \<le> v \<and> v < 1000 \<longrightarrow>
            parsePriceWith readFloat multiply raw = Inr (Some (multiply v 100000))) \<and>
         (1000 \<le> v \<and> v < 100000 \<longrightarrow>
            parsePriceWith readFloat multiply raw =
              Inr (Some (if v \<le> 200 \<and> jsRem v 10 = 0 then multiply v 100000 else v))) \<and>
         (500000000 < v \<longrightarrow> parsePriceWith readFloat multiply raw = Inr None) \<and>
         (100000 \<le> v \<and> v \<le> 500000000 \<longrightarrow>
            parsePriceWith readFloat multiply raw = Inr (Some v))))"
proof (cases raw)
  case None
  then show ?thesis
    by (simp add: parsePriceWith_def falsy_def)
next
  case (Some t)
  then show ?thesis
    by (auto simp: parsePriceWith_Some falsy_def)
qed

text \<open>
  The instance that reads and multiplies exactly, on texts whose numbers are doubles
  and whose products are exact in doubles.
\<close>

theorem parsePrice_bands_witness:
  "parsePriceGeneric None = Inr None \<and>
   parsePriceGeneric (Some ''price on request'') = Inr None \<and>
   parsePriceGeneric (Some ''99.5 lakh'') = Inr None \<and>
   parsePriceGeneric (Some ''120 L'') = Inr (Some 12000000) \<and>
   parsePriceGeneric (Some ''1,200'') = Inr (Some 1200) \<and>
   parsePriceGeneric (Some ''600000000'') = Inr None \<and>
   parsePriceGeneric (Some ''7500000'') = Inr (Some 7500000)"
proof -
  have v2: "exactFloat (stripNonNumeric ''price on request'') = NaN"
    and v3: "exactFloat (stripNonNumeric ''99.5 lakh'') = Finite (199 / 2)"
    and v4: "exactFloat (stripNonNumeric ''120 L'') = Finite 120"
    and v5: "exactFloat (stripNonNumeric ''1,200'') = Finite 1200"
    and v6: "exactFloat (stripNonNumeric ''600000000'') = Finite 600000000"
    and v7: "exactFloat (stripNonNumeric ''7500000'') = Finite 7500000"
    by (simp_all add: exactFloat_def num_eval)
  show ?thesis
    unfolding parsePriceGeneric_def
    using parsePrice_bands [of None exactFloat "(*)"]
      parsePrice_bands [of "Some ''price on request''" exactFloat "(*)" "''price on request''"] v2
      parsePrice_bands [of "Some ''99.5 lakh''" exactFloat "(*)" "''99.5 lakh''" "199 / 2"] v3
      parsePrice_bands [of "Some ''120 L''" exactFloat "(*)" "''120 L''" 120] v4
      parsePrice_bands [of "Some ''1,200''" exactFloat "(*)" "''1,200''" 1200] v5
      parsePrice_bands [of "Some ''600000000''" exactFloat "(*)" "''600000000''" 600000000] v6
      parsePrice_bands [of "Some ''7500000''" exactFloat "(*)" "''7500000''" 7500000] v7
    by (simp add: falsy_def)
qed

text \<open>
  In the band [1000, 100000) the test "at most 200 and divisible by 10" can never
  succeed, so there the number is always returned as it is.
\<close>

lemma parsePrice_middle_band:
  "s \<noteq> [] \<Longrightarrow> readFloat (stripNonNumeric s) = Finite v \<Longrightarrow> 1000 \<le> v \<Longrightarrow> v < 100000 \<Longrightarrow>
   parsePriceWith readFloat multiply (Some s) = Inr (Some v)"
  by (simp add: parsePriceWith_Some)

text \<open>
  Where the double differs from the decimal text, the bands are those of the double: a
  text that \<^verbatim>\<open>parseFloat\<close> reads as the double 100 (as it reads
  99.99999999999999999) is in the band [100, 1000), and a text that it reads as
  500000000 (as it reads 500000000.0000000001) is returned as 500000000.
\<close>

lemma parsePrice_rounded_reading:
  "readFloat (stripNonNumeric ''99.99999999999999999'') = Finite 100 \<Longrightarrow>
   parsePriceWith readFloat multiply (Some ''99.99999999999999999'') =
     Inr (Some (multiply 100 100000))"
  "readFloat (stripNonNumeric ''500000000.0000000001'') = Finite 500000000 \<Longrightarrow>
   parsePriceWith readFloat multiply (Some ''500000000.0000000001'') = Inr (Some 500000000)"
  by (simp_all add: parsePriceWith_Some)

text \<open>
  C3. The claim, like the comments of \<^verbatim>\<open>parsePriceGeneric\<close> ("e.g., 80 = 80 lakhs",
  "e.g., 80, 120"), has the input "80" read as 80 lakhs, 8000000. The code returns null
  for it: the test \<^verbatim>\<open>price < 100\<close> comes first, and the later test
  \<^verbatim>\<open>price <= 200 && price % 10 === 0\<close> stands in a branch that 80 never reaches.
\<close>

theorem parsePrice_80:
  "parsePriceGeneric (Some ''80'') = Inr None \<and>
   parsePriceGeneric (Some ''80'') \<noteq> Inr (Some 8000000)"
  by (simp add: num_eval parsePriceGeneric_Some)

subsection \<open>The extractors never throw\<close>

lemmas result_defs = bindR_def tryCatch_def deref_def falsy_def

lemma parsePriceGeneric_total: "\<exists>v. parsePriceGeneric x = Inr v"
  by (cases x)
     (auto simp: parsePriceGeneric_def parsePriceWith_def result_defs Let_def split: number.splits)

lemma parseAreaGeneric_total: "\<exists>v. parseAreaGeneric x = Inr v"
  by (cases x) (auto simp: parseAreaGeneric_def result_defs split: option.splits)

lemma extractBHKGeneric_total: "\<exists>v. extractBHKGeneric x = Inr v"
  by (cases x) (auto simp: extractBHKGeneric_def result_defs split: option.splits)

lemma parsePossessionGeneric_total: "\<exists>v. parsePossessionGeneric x = Inr v"
  by (cases x) (auto simp: parsePossessionGeneric_def result_defs Let_def)

lemma extractLocationGeneric_total: "\<exists>v. extractLocationGeneric x y = Inr v"
  by (cases x) (auto simp: extractLocationGeneric_def result_defs Let_def)

lemma parseReraId_total: "\<exists>v. parseReraId x = Inr v"
  by (cases x) (auto simp: parseReraId_def result_defs split: option.splits)

lemma parseImages_total: "\<exists>v. parseImages jp x = Inr v"
  by (cases x) (auto simp: parseImages_def result_defs split: option.splits sum.splits)

lemma extractAmenitiesGeneric_total: "\<exists>v. extractAmenitiesGeneric x b = Inr v"
  by (cases x) (auto simp: extractAmenitiesGeneric_def result_defs Let_def)

lemma extractBuilderGeneric_total: "\<exists>v. extractBuilderGeneric x = Inr v"
  by (cases x) (auto simp: extractBuilderGeneric_def result_defs Let_def)

lemma quotedPattern_Nil: "regexMatch False quotedPattern [] = None"
  by code_simp

text \<open>
  C9, as the claim states it: when no quoted text is found, \<open>parseReraId\<close> returns null.
  It returns its input.
\<close>

theorem parseReraId_unquoted_counterexample:
  "parseReraId (Some ''P99000056045'') = Inr (Some ''P99000056045'') \<and>
   parseReraId (Some ''P99000056045'') \<noteq> Inr None"
  by code_simp

text \<open>
  C9, amended: for every input (a string, also empty or malformed, or null) and every
  behaviour of \<^verbatim>\<open>JSON.parse\<close>, the functions \<open>parsePriceGeneric\<close>, \<open>parseAreaGeneric\<close>,
  \<open>extractBHKGeneric\<close>, \<open>parsePossessionGeneric\<close>, \<open>extractLocationGeneric\<close>,
  \<open>parseReraId\<close> and \<open>parseImages\<close> return a value and do not throw. \<open>parseReraId\<close>
  returns null for a missing or empty input, the quoted text when there is one, and its
  input unchanged when there is none. \<open>parseImages\<close> returns the empty list for a
  missing or empty input, when no bracketed text is found and when \<^verbatim>\<open>JSON.parse\<close>
  throws on the bracketed text.
\<close>

theorem extractors_never_throw:
  "(\<exists>v. parsePriceGeneric x = Inr v) \<and>
   (\<exists>v. parseAreaGeneric x = Inr v) \<and>
   (\<exists>v. extractBHKGeneric x = Inr v) \<and>
   (\<exists>v. parsePossessionGeneric x = Inr v) \<and>
   (\<exists>v. extractLocationGeneric x y = Inr v) \<and>
   (\<exists>v. parseReraId x = Inr v) \<and>
   (\<exists>v. parseImages jsonParse x = Inr v) \<and>
   (falsy x \<longrightarrow> parseReraId x = Inr None) \<and>
   (x = Some s \<and> regexMatch False quotedPattern s = Some q \<longrightarrow> parseReraId x = Inr (group q 1)) \<and>
   (x = Some s \<and> s \<noteq> [] \<and> regexMatch False quotedPattern s = None \<longrightarrow>
      parseReraId x = Inr (Some s)) \<and>
   (falsy x \<longrightarrow> parseImages jsonParse x = Inr (JArr [])) \<and>
   (x = Some s \<and> regexMatch False bracketPattern s = None \<longrightarrow>
      parseImages jsonParse x = Inr (JArr [])) \<and>
   (x = Some s \<and> regexMatch False bracketPattern s = Some m \<and> jsonParse (matched m) = Inl e \<longrightarrow>
      parseImages jsonParse x = Inr (JArr []))"
proof -
  have "falsy x \<longrightarrow> parseReraId x = Inr None"
    by (simp add: parseReraId_def)
  moreover have "x = Some s \<and> regexMatch False quotedPattern s = Some q \<longrightarrow>
      parseReraId x = Inr (group q 1)"
    by (cases "s = []") (auto simp: parseReraId_def result_defs quotedPattern_Nil)
  moreover have "x = Some s \<and> s \<noteq> [] \<and> regexMatch False quotedPattern s = None \<longrightarrow>
      parseReraId x = Inr (Some s)"
    by (simp add: parseReraId_def result_defs)
  moreover have "falsy x \<longrightarrow> parseImages jsonParse x = Inr (JArr [])"
    by (simp add: parseImages_def)
  moreover have "x = Some s \<and> regexMatch False bracketPattern s = None \<longrightarrow>
      parseImages jsonParse x = Inr (JArr [])"
    by (simp add: parseImages_def result_defs)
  moreover have "x = Some s \<and> regexMatch False bracketPattern s = Some m \<and>
      jsonParse (matched m) = Inl e \<longrightarrow> parseImages jsonParse x = Inr (JArr [])"
    by (simp add: parseImages_def result_defs)
  ultimately show ?thesis
    using parsePriceGeneric_total parseAreaGeneric_total extractBHKGeneric_total
      parsePossessionGeneric_total extractLocationGeneric_total parseReraId_total
      parseImages_total
    by blast
qed

theorem extractors_never_throw_witness:
  "parseReraId None = Inr None \<and>
   parseReraId (Some ''P99000056045'') = Inr (Some ''P99000056045'') \<and>
   parseImages jsonParseRejecting None = Inr (JArr []) \<and>
   parseImages jsonParseRejecting (Some ''no images'') = Inr (JArr []) \<and>
   parseImages jsonParseRejecting (Some ''[1,]'') = Inr (JArr [])"
proof -
  have r: "regexMatch False quotedPattern ''P99000056045'' = None"
    by code_simp
  have i: "regexMatch False bracketPattern ''no images'' = None"
    by code_simp
  have j: "regexMatch False bracketPattern ''[1,]'' =
      Some \<lparr>before = [], matched = ''[1,]'', after = [], groups = [(1, ''1,'')]\<rparr>"
    by code_simp
  have t: "jsonParseRejecting ''[1,]'' = Inl SyntaxError"
    by (simp add: jsonParseRejecting_def)
  show ?thesis
    using extractors_never_throw [where x = None and jsonParse = jsonParseRejecting]
      extractors_never_throw [where x = "Some ''P99000056045''" and s = "''P99000056045''"]
      extractors_never_throw [where x = "Some ''no images''" and s = "''no images''"
        and jsonParse = jsonParseRejecting]
      extractors_never_throw [where x = "Some ''[1,]''" and s = "''[1,]''"
        and jsonParse = jsonParseRejecting and e = SyntaxError
        and m = "\<lparr>before = [], matched = ''[1,]'', after = [], groups = [(1, ''1,'')]\<rparr>"]
    by (simp add: r i j t falsy_def)
qed

subsection \<open>The merger\<close>

lemma createPropertyEntry_total: "\<exists>r. createPropertyEntry jp p c v a = Inr r"
  by (simp add: createPropertyEntry_def tryCatch_def split: sum.splits)

lemma createPropertyEntry_no_variant: "createPropertyEntry jp p c None a = Inr None"
proof -
  have pr: "parsePriceGeneric (optField (None :: variantRow option) var_price) = Inr None"
    by (simp add: optField_def parsePriceGeneric_None)
  obtain b where b: "extractBHKGeneric (cfg_type c) = Inr b"
    using extractBHKGeneric_total by blast
  obtain ar where ar: "parseAreaGeneric (optField (None :: variantRow option) var_carpetArea) = Inr ar"
    using parseAreaGeneric_total by blast
  obtain l where l: "extractLocationGeneric (optField a adr_fullAddress) (prj_projectName p) = Inr l"
    using extractLocationGeneric_total by blast
  show ?thesis
    by (simp add: createPropertyEntry_def pr b ar l bindR_def tryCatch_def falsyNum_def)
qed


lemma pushEntry_created:
  "pushEntry (createPropertyEntry jp p c v a) =
     Inr (case createPropertyEntry jp p c v a of Inr (Some d) \<Rightarrow> [d] | _ \<Rightarrow> [])"
  using createPropertyEntry_total [of jp p c v a]
  by (auto simp: pushEntry_def bindR_def split: option.splits)

lemma forEachPush_Inr:
  assumes "\<And>x. f x = Inr (g x)"
  shows "forEachPush f xs = Inr (concat (map g xs))"
  by (induction xs) (simp_all add: assms bindR_def)

lemma configEntries_eq:
  "configEntries jp variants p a c =
     Inr (concat (map (\<lambda>v. case createPropertyEntry jp p c (Some v) a of
                                 Inr (Some d) \<Rightarrow> [d] | _ \<Rightarrow> [])
                      (filter (\<lambda>v. var_configurationId v = cfg_id c) variants)))"
proof (cases "filter (\<lambda>v. var_configurationId v = cfg_id c) variants = []")
  case True
  then show ?thesis
    by (simp add: configEntries_def createPropertyEntry_no_variant pushEntry_def bindR_def)
next
  case False
  then show ?thesis
    by (simp add: configEntries_def Let_def
        forEachPush_Inr [where g = "\<lambda>v. case createPropertyEntry jp p c (Some v) a of
                                 Inr (Some d) \<Rightarrow> [d] | _ \<Rightarrow> []", OF pushEntry_created])
qed

lemma projectEntries_eq:
  "projectEntries jp addresses configurations variants p =
     Inr (concat (map
       (\<lambda>c. concat (map (\<lambda>v. case createPropertyEntry jp p c (Some v)
                                       (find (\<lambda>addr. adr_projectId addr = prj_id p) addresses) of
                                 Inr (Some d) \<Rightarrow> [d] | _ \<Rightarrow> [])
                      (filter (\<lambda>v. var_configurationId v = cfg_id c) variants)))
       (filter (\<lambda>c. cfg_projectId c = prj_id p) configurations)))"
  unfolding projectEntries_def Let_def
  by (rule forEachPush_Inr) (rule configEntries_eq)


lemma bindR_Inr_iff: "bindR r f = Inr y \<longleftrightarrow> (\<exists>x. r = Inr x \<and> f x = Inr y)"
  by (cases r) (simp_all add: bindR_def)

lemma tryCatch_Some_iff:
  "tryCatch body (\<lambda>e. Inr None) = Inr (Some d) \<longleftrightarrow> body = Inr (Some d)"
  by (cases body) (simp_all add: tryCatch_def)

lemma createPropertyEntry_Some_iff:
  "createPropertyEntry jp p c v a = Inr (Some d) \<longleftrightarrow>
   (\<exists>bhkV priceV areaV location possessionV amenitiesV builderV reraIdV imagesV.
      extractBHKGeneric (cfg_type c) = Inr bhkV \<and>
      parsePriceGeneric (optField v var_price) = Inr priceV \<and>
      parseAreaGeneric (optField v var_carpetArea) = Inr areaV \<and>
      extractLocationGeneric (optField a adr_fullAddress) (prj_projectName p) = Inr location \<and>
      \<not> falsyNum bhkV \<and> \<not> falsyNum priceV \<and> \<not> falsyNum areaV \<and> \<not> falsy (fst location) \<and>
      parsePossessionGeneric (prj_status p) = Inr possessionV \<and>
      extractAmenitiesGeneric (optField v var_aboutProperty) bhkV = Inr amenitiesV \<and>
      extractBuilderGeneric (prj_projectName p) = Inr builderV \<and>
      parseReraId (prj_reraId p) = Inr reraIdV \<and>
      parseImages jp (optField v var_propertyImages) = Inr imagesV \<and>
      d = \<lparr>propertyId = orElse (optField v var_id) (cfg_id c),
             projectName = prj_projectName p,
             city = fst location,
             locality = snd location,
             bhk = bhkV,
             price = priceV,
             possession = Some possessionV,
             area = areaV,
             amenities = Some amenitiesV,
             slug = prj_slug p,
             builder = Some builderV,
             fullAddress = optField a adr_fullAddress,
             pincode = optField a adr_pincode,
             projectType = prj_projectType p,
             status = prj_status p,
             reraId = reraIdV,
             projectId = prj_id p,
             configId = cfg_id c,
             variantId = optField v var_id,
             propertyImages = Some imagesV,
             floorPlanImage = optField v var_floorPlanImage\<rparr>)"
  unfolding createPropertyEntry_def tryCatch_Some_iff
  by (simp only: bindR_Inr_iff if_distrib [of "\<lambda>r. r = Inr (Some d)"] sum.inject option.inject
        option.distinct if_False ex_simps simp_thms cong: if_cong)
     (auto)

lemma mergedData_eq:
  "mergedData jp projects addresses configurations variants =
     Inr (concat (map (\<lambda>p. concat (map
       (\<lambda>c. concat (map (\<lambda>v. pushed (createPropertyEntry jp p c (Some v)
                                       (find (\<lambda>addr. adr_projectId addr = prj_id p) addresses)))
                      (filter (\<lambda>v. var_configurationId v = cfg_id c) variants)))
       (filter (\<lambda>c. cfg_projectId c = prj_id p) configurations))) projects))"
  unfolding mergedData_def
  by (rule forEachPush_Inr) (simp add: projectEntries_eq pushed_def)

lemma created_fields:
  assumes "createPropertyEntry jp p c v a = Inr (Some d)"
  shows "variantId d = optField v var_id" "configId d = cfg_id c" "projectId d = prj_id p"
    "propertyId d = orElse (optField v var_id) (cfg_id c)"
  using assms by (auto simp: createPropertyEntry_Some_iff)

lemma created_share:
  assumes "createPropertyEntry jp p c v a = Inr (Some d)"
    and "createPropertyEntry jp p c v' a = Inr (Some d')"
  shows "sameNonVariantFields d d'"
  using assms by (auto simp: createPropertyEntry_Some_iff sameNonVariantFields_def)

lemma created_iff_resolved:
  "(\<exists>d. createPropertyEntry jp p c v a = Inr (Some d)) \<longleftrightarrow>
   (\<exists>b x ar ct lc.
      extractBHKGeneric (cfg_type c) = Inr (Some b) \<and> b \<noteq> 0 \<and>
      parsePriceGeneric (optField v var_price) = Inr (Some x) \<and> x \<noteq> 0 \<and>
      parseAreaGeneric (optField v var_carpetArea) = Inr (Some ar) \<and> ar \<noteq> 0 \<and>
      extractLocationGeneric (optField a adr_fullAddress) (prj_projectName p) = Inr (Some ct, lc) \<and>
      ct \<noteq> [])"
proof
  assume "\<exists>d. createPropertyEntry jp p c v a = Inr (Some d)"
  then show "\<exists>b x ar ct lc.
      extractBHKGeneric (cfg_type c) = Inr (Some b) \<and> b \<noteq> 0 \<and>
      parsePriceGeneric (optField v var_price) = Inr (Some x) \<and> x \<noteq> 0 \<and>
      parseAreaGeneric (optField v var_carpetArea) = Inr (Some ar) \<and> ar \<noteq> 0 \<and>
      extractLocationGeneric (optField a adr_fullAddress) (prj_projectName p) = Inr (Some ct, lc) \<and>
      ct \<noteq> []"
    by (auto simp: createPropertyEntry_Some_iff falsyNum_def falsy_def split: option.splits)
next
  assume "\<exists>b x ar ct lc.
      extractBHKGeneric (cfg_type c) = Inr (Some b) \<and> b \<noteq> 0 \<and>
      parsePriceGeneric (optField v var_price) = Inr (Some x) \<and> x \<noteq> 0 \<and>
      parseAreaGeneric (optField v var_carpetArea) = Inr (Some ar) \<and> ar \<noteq> 0 \<and>
      extractLocationGeneric (optField a adr_fullAddress) (prj_projectName p) = Inr (Some ct, lc) \<and>
      ct \<noteq> []"
  then obtain b x ar ct lc where r:
      "extractBHKGeneric (cfg_type c) = Inr (Some b)" "b \<noteq> 0"
      "parsePriceGeneric (optField v var_price) = Inr (Some x)" "x \<noteq> 0"
      "parseAreaGeneric (optField v var_carpetArea) = Inr (Some ar)" "ar \<noteq> 0"
      "extractLocationGeneric (optField a adr_fullAddress) (prj_projectName p) = Inr (Some ct, lc)"
      "ct \<noteq> []"
    by blast
  obtain po where po: "parsePossessionGeneric (prj_status p) = Inr po"
    using parsePossessionGeneric_total by blast
  obtain am where am: "extractAmenitiesGeneric (optField v var_aboutProperty) (Some b) = Inr am"
    using extractAmenitiesGeneric_total by blast
  obtain bu where bu: "extractBuilderGeneric (prj_projectName p) = Inr bu"
    using extractBuilderGeneric_total by blast
  obtain re where re: "parseReraId (prj_reraId p) = Inr re"
    using parseReraId_total by blast
  obtain im where im: "parseImages jp (optField v var_propertyImages) = Inr im"
    using parseImages_total by blast
  show "\<exists>d. createPropertyEntry jp p c v a = Inr (Some d)"
    by (simp add: createPropertyEntry_Some_iff r po am bu re im falsyNum_def falsy_def)
qed

text \<open>
  C4, amended: the merged list is the concatenation, over the projects and over the
  configurations of each project, of the drafts of the configuration. A configuration
  with no variant row gives no draft (the entry without a variant has no price and is
  discarded). Otherwise there is at most one draft per variant row of the configuration,
  in the order of the rows: exactly one when bhk, price, area and city all resolve, and
  none when one of them does not. The draft of a variant row carries the ids of the
  variant, the configuration and the project, and two drafts from two variants of one
  configuration agree on all fields that are not read from the variant row.
\<close>

theorem merger_drafts:
  "mergedData jp projects addresses configurations variants =
     Inr (concat (map (\<lambda>p. concat (map
       (\<lambda>c. concat (map (\<lambda>v. pushed (createPropertyEntry jp p c (Some v)
                                       (find (\<lambda>addr. adr_projectId addr = prj_id p) addresses)))
                      (filter (\<lambda>v. var_configurationId v = cfg_id c) variants)))
       (filter (\<lambda>c. cfg_projectId c = prj_id p) configurations))) projects)) \<and>
   createPropertyEntry jp project config None address = Inr None \<and>
   (filter (\<lambda>v. var_configurationId v = cfg_id config) variants = [] \<longrightarrow>
      configEntries jp variants project address config = Inr []) \<and>
   configEntries jp variants project address config =
     Inr (concat (map (\<lambda>v. pushed (createPropertyEntry jp project config (Some v) address))
                      (filter (\<lambda>v. var_configurationId v = cfg_id config) variants))) \<and>
   length (pushed (createPropertyEntry jp project config (Some v) address)) \<le> 1 \<and>
   ((\<exists>d. pushed (createPropertyEntry jp project config (Some v) address) = [d]) \<longleftrightarrow>
    (\<exists>b x ar ct lc.
      extractBHKGeneric (cfg_type config) = Inr (Some b) \<and> b \<noteq> 0 \<and>
      parsePriceGeneric (var_price v) = Inr (Some x) \<and> x \<noteq> 0 \<and>
      parseAreaGeneric (var_carpetArea v) = Inr (Some ar) \<and> ar \<noteq> 0 \<and>
      extractLocationGeneric (optField address adr_fullAddress) (prj_projectName project) =
        Inr (Some ct, lc) \<and> ct \<noteq> [])) \<and>
   (pushed (createPropertyEntry jp project config (Some v) address) = [d] \<longrightarrow>
      variantId d = var_id v \<and> configId d = cfg_id config \<and> projectId d = prj_id project) \<and>
   (pushed (createPropertyEntry jp project config (Some v) address) = [d] \<and>
    pushed (createPropertyEntry jp project config (Some v') address) = [d'] \<longrightarrow>
      sameNonVariantFields d d')"
proof -
  have pushed_iff: "\<And>r e. pushed r = [e] \<longleftrightarrow> r = Inr (Some e)"
    by (auto simp: pushed_def split: sum.splits option.splits)
  have "configEntries jp variants project address config =
     Inr (concat (map (\<lambda>v. pushed (createPropertyEntry jp project config (Some v) address))
                      (filter (\<lambda>v. var_configurationId v = cfg_id config) variants)))"
    by (simp add: configEntries_eq pushed_def)
  moreover have "length (pushed (createPropertyEntry jp project config (Some v) address)) \<le> 1"
    by (simp add: pushed_def split: sum.splits option.splits)
  moreover have "(\<exists>d. pushed (createPropertyEntry jp project config (Some v) address) = [d]) \<longleftrightarrow>
    (\<exists>b x ar ct lc.
      extractBHKGeneric (cfg_type config) = Inr (Some b) \<and> b \<noteq> 0 \<and>
      parsePriceGeneric (var_price v) = Inr (Some x) \<and> x \<noteq> 0 \<and>
      parseAreaGeneric (var_carpetArea v) = Inr (Some ar) \<and> ar \<noteq> 0 \<and>
      extractLocationGeneric (optField address adr_fullAddress) (prj_projectName project) =
        Inr (Some ct, lc) \<and> ct \<noteq> [])"
    using created_iff_resolved [of jp project config "Some v" address]
    by (simp add: pushed_iff optField_def)
  moreover have "pushed (createPropertyEntry jp project config (Some v) address) = [d] \<longrightarrow>
      variantId d = var_id v \<and> configId d = cfg_id config \<and> projectId d = prj_id project"
    using created_fields [of jp project config "Some v" address d]
    by (simp add: pushed_iff optField_def)
  moreover have "pushed (createPropertyEntry jp project config (Some v) address) = [d] \<and>
    pushed (createPropertyEntry jp project config (Some v') address) = [d'] \<longrightarrow>
      sameNonVariantFields d d'"
    using created_share [of jp project config "Some v" address d "Some v'" d']
    by (simp add: pushed_iff)
  ultimately show ?thesis
    using createPropertyEntry_no_variant [of jp project config address]
      mergedData_eq [of jp projects addresses configurations variants]
    by simp
qed

subsection \<open>The validator\<close>

lemma keepProperty_iff: "keepProperty p \<longleftrightarrow> specValid p \<and> city p \<noteq> Some []"
  by (auto simp: keepProperty_def specValid_def falsy_def MIN_REASONABLE_PRICE_def
      MAX_REASONABLE_PRICE_def MIN_REASONABLE_AREA_def MAX_REASONABLE_AREA_def
      split: option.splits)

text \<open>
  C1. Every entry that \<open>filterValidProperties\<close> returns, and so every entry of the
  collection that \<open>mergeData\<close> returns, has a city that is not null, bhk in [1, 10],
  area in [300, 5000] and price in [500000, 500000000]; an entry that fails one of these
  checks is not in the output.
\<close>

theorem validated_invariant:
  "(\<forall>p\<in>set (filterValidProperties ps). specValid p) \<and>
   (\<forall>p\<in>set ps. \<not> specValid p \<longrightarrow> p \<notin> set (filterValidProperties ps)) \<and>
   (\<exists>validProperties.
      mergeData jp projects addresses configurations variants = Inr validProperties \<and>
      (\<forall>p\<in>set validProperties. specValid p))"
proof -
  obtain merged where "mergedData jp projects addresses configurations variants = Inr merged"
    using mergedData_eq by blast
  then have m: "mergeData jp projects addresses configurations variants =
      Inr (filterValidProperties merged)"
    by (simp add: mergeData_def bindR_def)
  have a: "\<And>qs. \<forall>p\<in>set (filterValidProperties qs). specValid p"
    by (simp add: filterValidProperties_def keepProperty_iff)
  moreover have "\<forall>p\<in>set ps. \<not> specValid p \<longrightarrow> p \<notin> set (filterValidProperties ps)"
    by (simp add: filterValidProperties_def keepProperty_iff)
  ultimately show ?thesis
    using a [of merged] m by blast
qed

subsection \<open>The example rows\<close>

lemma ex_bhk: "extractBHKGeneric (Some ''2 BHK'') = Inr (Some 2)"
  by code_simp

lemma ex_location:
  "extractLocationGeneric (Some ''Near Phoenix Mall, Wakad, Pune'') (Some ''Sai Heights'') =
     Inr (Some ''Pune'', Some ''Phoenix Mall'')"
  by code_simp

lemma ex_possession: "parsePossessionGeneric (Some ''READY_TO_MOVE'') = Inr ''Ready to Move''"
  by code_simp

lemma ex_amenities:
  "extractAmenitiesGeneric (Some ''Gym and pool'') (Some 2) =
     Inr [''Security'', ''Water Supply'', ''Power Backup'', ''Swimming Pool'', ''Gym'']"
  by code_simp

lemma ex_builder: "extractBuilderGeneric (Some ''Sai Heights'') = Inr ''Sai Builders''"
  by code_simp

lemma ex_rera: "parseReraId (Some ''P52100001234'') = Inr (Some ''P52100001234'')"
  by code_simp

lemma ex_images: "parseImages jp None = Inr (JArr [])"
  by (simp add: parseImages_def falsy_def)

lemma ex_prices:
  "parsePriceGeneric (Some ''8500000'') = Inr (Some 8500000)"
  "parsePriceGeneric (Some ''9200000'') = Inr (Some 9200000)"
  "parsePriceGeneric (Some ''on request'') = Inr None"
  "parsePriceGeneric (Some ''400000'') = Inr (Some 400000)"
  by (simp_all add: parsePriceGeneric_Some num_eval)

lemma parseAreaGeneric_Some:
  "parseAreaGeneric (Some s) =
     (case parseFloat (stripNonNumeric s) of
        None \<Rightarrow> Inr None
      | Some v \<Rightarrow> if v < 300 then Inr None else if v > 5000 then Inr None else Inr (Some v))"
proof (cases "s = []")
  case True
  then show ?thesis
    by (simp add: parseAreaGeneric_def falsy_def stripNonNumeric_def parseFloat_Nil)
next
  case False
  then show ?thesis
    by (auto simp: parseAreaGeneric_def falsy_def deref_def bindR_def tryCatch_def
        split: option.splits)
qed

lemma ex_areas:
  "parseAreaGeneric (Some ''850'') = Inr (Some 850)"
  "parseAreaGeneric (Some ''910 sq.ft'') = Inr (Some 910)"
  "parseAreaGeneric (Some ''910'') = Inr (Some 910)"
  "parseAreaGeneric (Some ''900'') = Inr (Some 900)"
  by (simp_all add: parseAreaGeneric_Some num_eval)

lemmas ex_fields = ex_bhk ex_location ex_possession ex_amenities ex_builder ex_rera ex_images
  ex_prices ex_areas

lemma ex_created:
  "createPropertyEntry jp exProject exConfig (Some (exVariant ''v1'' ''8500000'' ''850''))
     (Some exAddress) = Inr (Some (exEntry ''v1'' 8500000 850))"
  "createPropertyEntry jp exProject exConfig (Some (exVariant ''v2'' ''9200000'' ''910 sq.ft''))
     (Some exAddress) = Inr (Some (exEntry ''v2'' 9200000 910))"
  "createPropertyEntry jp exProject exConfig (Some (exVariant ''v3'' ''on request'' ''910''))
     (Some exAddress) = Inr None"
  "createPropertyEntry jp exProject exConfig (Some (exVariant ''v4'' ''400000'' ''900''))
     (Some exAddress) = Inr (Some (exEntry ''v4'' 400000 900))"
  by (simp_all add: createPropertyEntry_def ex_rows ex_fields bindR_def tryCatch_def
      optField_def orElse_def falsy_def falsyNum_def)

lemma ex_config_variants:
  "filter (\<lambda>v. var_configurationId v = cfg_id exConfig) exVariants = exVariants"
  "filter (\<lambda>v. var_configurationId v = cfg_id exConfigBare) exVariants = []"
  by (simp_all add: ex_rows)

lemma ex_pushed:
  "map (\<lambda>v. pushed (createPropertyEntry jp exProject exConfig (Some v) (Some exAddress))) exVariants =
     [[exEntry ''v1'' 8500000 850], [exEntry ''v2'' 9200000 910], [], [exEntry ''v4'' 400000 900]]"
  by (simp add: exVariants_def ex_created pushed_def)

lemma ex_mergedData:
  "mergedData jp [exProject] [exAddress] [exConfig, exConfigBare] exVariants =
     Inr [exEntry ''v1'' 8500000 850, exEntry ''v2'' 9200000 910, exEntry ''v4'' 400000 900]"
proof -
  have k: "adr_projectId exAddress = prj_id exProject" "cfg_projectId exConfig = prj_id exProject"
    "cfg_projectId exConfigBare = prj_id exProject"
    by (simp_all add: ex_rows)
  show ?thesis
    by (simp add: mergedData_eq k ex_config_variants ex_pushed)
qed

lemma ex_keep:
  "keepProperty (exEntry ''v1'' 8500000 850)" "keepProperty (exEntry ''v2'' 9200000 910)"
  "\<not> keepProperty (exEntry ''v4'' 400000 900)"
  by (simp_all add: keepProperty_def exEntry_def falsy_def MIN_REASONABLE_PRICE_def
      MAX_REASONABLE_PRICE_def MIN_REASONABLE_AREA_def MAX_REASONABLE_AREA_def)

lemma ex_mergeData:
  "mergeData jp [exProject] [exAddress] [exConfig, exConfigBare] exVariants =
     Inr [exEntry ''v1'' 8500000 850, exEntry ''v2'' 9200000 910]"
  by (simp add: mergeData_def ex_mergedData bindR_def filterValidProperties_def ex_keep)

theorem validated_invariant_witness:
  "filterValidProperties
     [flat ''Pune'' 2 850 9000000, flat ''Pune'' 12 850 9000000, listing ''Mumbai'' 3 15000000] =
     [flat ''Pune'' 2 850 9000000] \<and>
   specValid (flat ''Pune'' 2 850 9000000) \<and>
   \<not> specValid (flat ''Pune'' 12 850 9000000) \<and>
   \<not> specValid (listing ''Mumbai'' 3 15000000) \<and>
   mergeData jsonParseRejecting [exProject] [exAddress] [exConfig, exConfigBare] exVariants =
     Inr [exEntry ''v1'' 8500000 850, exEntry ''v2'' 9200000 910] \<and>
   specValid (exEntry ''v1'' 8500000 850) \<and> specValid (exEntry ''v2'' 9200000 910)"
proof -
  have f: "filterValidProperties
     [flat ''Pune'' 2 850 9000000, flat ''Pune'' 12 850 9000000, listing ''Mumbai'' 3 15000000] =
     [flat ''Pune'' 2 850 9000000]"
    by (simp add: filterValidProperties_def keepProperty_def flat_def listing_def falsy_def
        MIN_REASONABLE_PRICE_def MAX_REASONABLE_PRICE_def MIN_REASONABLE_AREA_def
        MAX_REASONABLE_AREA_def)
  have n: "\<not> specValid (flat ''Pune'' 12 850 9000000)" "\<not> specValid (listing ''Mumbai'' 3 15000000)"
    by (simp_all add: specValid_def flat_def listing_def)
  show ?thesis
    using validated_invariant
      [of "[flat ''Pune'' 2 850 9000000, flat ''Pune'' 12 850 9000000, listing ''Mumbai'' 3 15000000]"
          jsonParseRejecting "[exProject]" "[exAddress]" "[exConfig, exConfigBare]" exVariants]
    by (simp add: f n ex_mergeData)
qed

text \<open>
  C4, as the claim states it: a configuration with no variant rows gives exactly one
  draft, and every pair of a configuration and a variant gives exactly one. A project
  with one configuration and no variant row is merged into the empty list, and a variant
  row whose price cannot be read gives no draft.
\<close>

theorem merger_no_variant_counterexample:
  "configEntries jsonParseRejecting [] exProject (Some exAddress) exConfigBare = Inr [] \<and>
   mergedData jsonParseRejecting [exProject] [exAddress] [exConfigBare] [] = Inr [] \<and>
   configEntries jsonParseRejecting [exVariant ''v3'' ''on request'' ''910''] exProject
     (Some exAddress) exConfig = Inr []"
proof -
  have "var_configurationId (exVariant ''v3'' ''on request'' ''910'') = cfg_id exConfig"
    by (simp add: ex_rows)
  then show ?thesis
    by (simp add: configEntries_eq mergedData_eq ex_created pushed_def)
qed

theorem merger_drafts_witness:
  "configEntries jsonParseRejecting exVariants exProject (Some exAddress) exConfig =
     Inr [exEntry ''v1'' 8500000 850, exEntry ''v2'' 9200000 910, exEntry ''v4'' 400000 900] \<and>
   sameNonVariantFields (exEntry ''v1'' 8500000 850) (exEntry ''v2'' 9200000 910) \<and>
   variantId (exEntry ''v1'' 8500000 850) = Some ''v1'' \<and>
   pushed (createPropertyEntry jsonParseRejecting exProject exConfig
     (Some (exVariant ''v3'' ''on request'' ''910'')) (Some exAddress)) = [] \<and>
   configEntries jsonParseRejecting exVariants exProject (Some exAddress) exConfigBare = Inr []"
proof -
  have p: "pushed (createPropertyEntry jsonParseRejecting exProject exConfig
             (Some (exVariant ''v1'' ''8500000'' ''850'')) (Some exAddress)) =
           [exEntry ''v1'' 8500000 850]"
     "pushed (createPropertyEntry jsonParseRejecting exProject exConfig
             (Some (exVariant ''v2'' ''9200000'' ''910 sq.ft'')) (Some exAddress)) =
           [exEntry ''v2'' 9200000 910]"
     "pushed (createPropertyEntry jsonParseRejecting exProject exConfig
             (Some (exVariant ''v3'' ''on request'' ''910'')) (Some exAddress)) = []"
    by (simp_all add: ex_created pushed_def)
  have v: "var_id (exVariant ''v1'' ''8500000'' ''850'') = Some ''v1''"
    by (simp add: exVariant_def)
  show ?thesis
    using merger_drafts
        [where jp = jsonParseRejecting and project = exProject and config = exConfig
           and address = "Some exAddress" and variants = exVariants
           and v = "exVariant ''v1'' ''8500000'' ''850''" and d = "exEntry ''v1'' 8500000 850"
           and v' = "exVariant ''v2'' ''9200000'' ''910 sq.ft''"
           and d' = "exEntry ''v2'' 9200000 910"]
      merger_drafts
        [where jp = jsonParseRejecting and project = exProject and config = exConfigBare
           and address = "Some exAddress" and variants = exVariants]
    by (simp add: p v ex_config_variants ex_pushed)
qed

subsection \<open>The query filter engine\<close>

lemma startsWith_iff: "startsWith s t \<longleftrightarrow> (\<exists>b. s = t @ b)"
  by (induction s t rule: startsWith.induct) auto

text \<open>\<open>includesStr s t\<close> holds exactly when \<open>t\<close> is a contiguous part of \<open>s\<close>.\<close>

lemma includesStr_iff: "includesStr s t \<longleftrightarrow> (\<exists>a b. s = a @ t @ b)"
proof (induction s)
  case Nil
  then show ?case by auto
next
  case (Cons x xs)
  show ?case
  proof
    assume "includesStr (x # xs) t"
    then consider "startsWith (x # xs) t" | "includesStr xs t" by auto
    then show "\<exists>a b. x # xs = a @ t @ b"
    proof cases
      case 1
      then obtain b where "x # xs = t @ b" by (auto simp: startsWith_iff)
      then have "x # xs = [] @ t @ b" by simp
      then show ?thesis by blast
    next
      case 2
      then obtain a b where "xs = a @ t @ b" using Cons.IH by auto
      then have "x # xs = (x # a) @ t @ b" by simp
      then show ?thesis by blast
    qed
  next
    assume "\<exists>a b. x # xs = a @ t @ b"
    then obtain a b where ab: "x # xs = a @ t @ b" by auto
    show "includesStr (x # xs) t"
    proof (cases a)
      case Nil
      with ab have "startsWith (x # xs) t" by (auto simp: startsWith_iff)
      then show ?thesis by simp
    next
      case (Cons y ys)
      with ab have "xs = ys @ t @ b" by simp
      then have "includesStr xs t" using Cons.IH by blast
      then show ?thesis by simp
    qed
  qed
qed

text \<open>
  \<open>containsCI\<close> is the substring match that ignores case: the field is a non-empty
  string whose lower-case form contains the lower-case form of the filter value.
\<close>

lemma containsCI_iff:
  "containsCI field needle \<longleftrightarrow>
   (\<exists>s a b. field = Some s \<and> s \<noteq> [] \<and> toLowerCase s = a @ toLowerCase needle @ b)"
  by (cases field) (auto simp: containsCI_def includesStr_iff)

lemma byCity_filter:
  "byCity f rs = filter (\<lambda>p. \<forall>c. f_city f = Some c \<and> c \<noteq> [] \<longrightarrow> containsCI (city p) c) rs"
  by (simp add: byCity_def split: option.splits)

lemma byBhk_filter:
  "byBhk f rs = filter (\<lambda>p. \<forall>b. f_bhk f = Some b \<and> b \<noteq> 0 \<longrightarrow> bhk p = Some b) rs"
  by (simp add: byBhk_def split: option.splits)

lemma byMaxPrice_filter:
  "byMaxPrice f rs =
     filter (\<lambda>p. \<forall>m. f_maxPrice f = Some m \<and> m \<noteq> 0 \<longrightarrow> (\<exists>x. price p = Some x \<and> x \<le> m)) rs"
  by (auto simp: byMaxPrice_def split: option.splits intro!: filter_cong)

lemma byLocality_filter:
  "byLocality f rs =
     filter (\<lambda>p. \<forall>l. f_locality f = Some l \<and> l \<noteq> [] \<and> l \<noteq> ''null'' \<longrightarrow>
                     containsCI (locality p) l) rs"
  by (simp add: byLocality_def split: option.splits)

lemma byPossession_filter:
  "byPossession f rs =
     filter (\<lambda>p. \<forall>s. f_possession f = Some s \<and> s \<noteq> [] \<and> s \<noteq> ''null'' \<longrightarrow>
                     containsCI (possession p) s) rs"
  by (simp add: byPossession_def split: option.splits)

lemma filter5:
  "filter P5 (filter P4 (filter P3 (filter P2 (filter P1 xs)))) =
   filter (\<lambda>x. P1 x \<and> P2 x \<and> P3 x \<and> P4 x \<and> P5 x) xs"
  by (induction xs) auto

lemma applyFilters_conj:
  "applyFilters ps f = filter (\<lambda>p.
     (\<forall>c. f_city f = Some c \<and> c \<noteq> [] \<longrightarrow> containsCI (city p) c) \<and>
     (\<forall>b. f_bhk f = Some b \<and> b \<noteq> 0 \<longrightarrow> bhk p = Some b) \<and>
     (\<forall>m. f_maxPrice f = Some m \<and> m \<noteq> 0 \<longrightarrow> (\<exists>x. price p = Some x \<and> x \<le> m)) \<and>
     (\<forall>l. f_locality f = Some l \<and> l \<noteq> [] \<and> l \<noteq> ''null'' \<longrightarrow> containsCI (locality p) l) \<and>
     (\<forall>s. f_possession f = Some s \<and> s \<noteq> [] \<and> s \<noteq> ''null'' \<longrightarrow>
          containsCI (possession p) s)) ps"
  unfolding applyFilters_def Let_def
  by (simp only: byCity_filter byBhk_filter byMaxPrice_filter byLocality_filter
      byPossession_filter filter5)

text \<open>The equations that evaluate the filter engine on the example listings.\<close>

lemmas filter_eval =
  applyFilters_def byCity_def byBhk_def byMaxPrice_def byLocality_def byPossession_def
  containsCI_def exampleListings_def listing_def noFilters_def toLowerCase_def toLowerChar_def

lemma example_city_pune:
  "applyFilters exampleListings (noFilters\<lparr>f_city := Some ''pune''\<rparr>) = [listing ''Pune'' 2 9000000]"
  by (simp add: filter_eval)

text \<open>
  C5, as the claim states it: every key that is present is applied. A key that is
  present with the value 0 is not: with \<^verbatim>\<open>{maxPrice: 0}\<close> an entry is returned although
  its price is above 0.
\<close>

theorem applyFilters_present_key_counterexample:
  "applyFilters [listing ''Pune'' 2 9000000] (noFilters\<lparr>f_maxPrice := Some 0\<rparr>) =
     [listing ''Pune'' 2 9000000] \<and>
   price (listing ''Pune'' 2 9000000) = Some 9000000 \<and> \<not> (9000000 \<le> (0::rat))"
  by (simp add: filter_eval)

text \<open>
  C5, amended: the engine keeps exactly the entries that satisfy the predicate of every
  key whose value is present and truthy (a non-empty string, for locality and
  possession also other than the text "null"; a number other than 0): a substring match
  that ignores case for city, locality and possession, equality for bhk, price at most
  maxPrice. The other keys impose no constraint. On the two example listings the filter
  \<^verbatim>\<open>{city: "pune"}\<close> returns exactly the first.
\<close>

theorem applyFilters_truthy_keys:
  "applyFilters ps f = filter (\<lambda>p.
     (\<forall>c. f_city f = Some c \<and> c \<noteq> [] \<longrightarrow> containsCI (city p) c) \<and>
     (\<forall>b. f_bhk f = Some b \<and> b \<noteq> 0 \<longrightarrow> bhk p = Some b) \<and>
     (\<forall>m. f_maxPrice f = Some m \<and> m \<noteq> 0 \<longrightarrow> (\<exists>x. price p = Some x \<and> x \<le> m)) \<and>
     (\<forall>l. f_locality f = Some l \<and> l \<noteq> [] \<and> l \<noteq> ''null'' \<longrightarrow> containsCI (locality p) l) \<and>
     (\<forall>s. f_possession f = Some s \<and> s \<noteq> [] \<and> s \<noteq> ''null'' \<longrightarrow>
          containsCI (possession p) s)) ps \<and>
   applyFilters [listing ''Pune'' 2 9000000, listing ''Mumbai'' 3 15000000]
     (noFilters\<lparr>f_city := Some ''pune''\<rparr>) = [listing ''Pune'' 2 9000000]"
  using applyFilters_conj [of ps f] example_city_pune
  by (simp only: exampleListings_def simp_thms)

theorem applyFilters_truthy_keys_witness:
  "applyFilters exampleListings (noFilters\<lparr>f_city := Some ''MUM'', f_maxPrice := Some 20000000\<rparr>) =
     [listing ''Mumbai'' 3 15000000] \<and>
   applyFilters exampleListings (noFilters\<lparr>f_bhk := Some 2, f_locality := Some ''baner''\<rparr>) = []"
proof -
  have c: "containsCI (Some ''Mumbai'') ''MUM''" "\<not> containsCI (Some ''Pune'') ''MUM''"
    "\<not> containsCI None ''baner''"
    by (simp_all add: containsCI_def toLowerCase_def toLowerChar_def)
  show ?thesis
    using
      applyFilters_truthy_keys
        [of exampleListings "noFilters\<lparr>f_city := Some ''MUM'', f_maxPrice := Some 20000000\<rparr>"]
      applyFilters_truthy_keys
        [of exampleListings "noFilters\<lparr>f_bhk := Some 2, f_locality := Some ''baner''\<rparr>"]
    by (simp add: c exampleListings_def listing_def noFilters_def)
qed

text \<open>
  C6, as the claim states it: a key that is present with a falsy value still constrains
  the result. With \<^verbatim>\<open>{bhk: 0}\<close> the engine returns the whole collection, as it does for
  the empty filter object.
\<close>

theorem applyFilters_falsy_key_counterexample:
  "applyFilters exampleListings (noFilters\<lparr>f_bhk := Some 0\<rparr>) = exampleListings \<and>
   applyFilters exampleListings (noFilters\<lparr>f_bhk := Some 0\<rparr>) =
     applyFilters exampleListings noFilters"
  by (simp add: filter_eval)

text \<open>
  C6, amended: a key that is present with a falsy value (the number 0, the empty
  string) lifts its constraint exactly as an absent key does, and so does the text
  "null" for locality and possession: the result is that of the filter object without
  these keys.
\<close>

theorem applyFilters_dropFalsy:
  "applyFilters ps f = applyFilters ps (dropFalsy f) \<and>
   applyFilters ps (f\<lparr>f_bhk := Some 0\<rparr>) = applyFilters ps (f\<lparr>f_bhk := None\<rparr>) \<and>
   applyFilters ps (f\<lparr>f_maxPrice := Some 0\<rparr>) = applyFilters ps (f\<lparr>f_maxPrice := None\<rparr>) \<and>
   applyFilters ps (f\<lparr>f_city := Some []\<rparr>) = applyFilters ps (f\<lparr>f_city := None\<rparr>)"
  by (simp add: applyFilters_def byCity_def byBhk_def byMaxPrice_def byLocality_def
      byPossession_def dropFalsy_def split: option.splits)

theorem applyFilters_dropFalsy_witness:
  "applyFilters exampleListings (noFilters\<lparr>f_bhk := Some 0, f_locality := Some ''null''\<rparr>) =
     exampleListings"
proof -
  have "dropFalsy (noFilters\<lparr>f_bhk := Some 0, f_locality := Some ''null''\<rparr>) = noFilters"
    by (simp add: dropFalsy_def noFilters_def)
  moreover have "applyFilters exampleListings noFilters = exampleListings"
    by (simp add: filter_eval)
  ultimately show ?thesis
    using applyFilters_dropFalsy
      [of exampleListings "noFilters\<lparr>f_bhk := Some 0, f_locality := Some ''null''\<rparr>"]
    by simp
qed

lemma applyKey_filter: "\<exists>P. applyKey f k = filter P"
proof (cases k)
  case KCity
  have "applyKey f KCity =
    filter (\<lambda>p. \<forall>c. f_city f = Some c \<and> c \<noteq> [] \<longrightarrow> containsCI (city p) c)"
    by (rule ext) (simp only: applyKey.simps byCity_filter)
  with KCity show ?thesis by blast
next
  case KBhk
  have "applyKey f KBhk = filter (\<lambda>p. \<forall>b. f_bhk f = Some b \<and> b \<noteq> 0 \<longrightarrow> bhk p = Some b)"
    by (rule ext) (simp only: applyKey.simps byBhk_filter)
  with KBhk show ?thesis by blast
next
  case KMaxPrice
  have "applyKey f KMaxPrice =
     filter (\<lambda>p. \<forall>m. f_maxPrice f = Some m \<and> m \<noteq> 0 \<longrightarrow> (\<exists>x. price p = Some x \<and> x \<le> m))"
    by (rule ext) (simp only: applyKey.simps byMaxPrice_filter)
  with KMaxPrice show ?thesis by blast
next
  case KLocality
  have "applyKey f KLocality =
    filter (\<lambda>p. \<forall>l. f_locality f = Some l \<and> l \<noteq> [] \<and> l \<noteq> ''null'' \<longrightarrow>
                    containsCI (locality p) l)"
    by (rule ext) (simp only: applyKey.simps byLocality_filter)
  with KLocality show ?thesis by blast
next
  case KPossession
  have "applyKey f KPossession =
    filter (\<lambda>p. \<forall>s. f_possession f = Some s \<and> s \<noteq> [] \<and> s \<noteq> ''null'' \<longrightarrow>
                    containsCI (possession p) s)"
    by (rule ext) (simp only: applyKey.simps byPossession_filter)
  with KPossession show ?thesis by blast
qed

text \<open>
  Steps that are filters can be applied in any order: the result keeps the entries
  that every step keeps.
\<close>

lemma fold_filter_steps:
  assumes "\<And>k. \<exists>P. g k = filter P"
  shows "fold g ks ps = filter (\<lambda>p. \<forall>k\<in>set ks. g k [p] = [p]) ps"
proof (induction ks arbitrary: ps)
  case Nil
  then show ?case by simp
next
  case (Cons k ks)
  from assms obtain P where P: "g k = filter P" by blast
  have "fold g (k # ks) ps = fold g ks (filter P ps)" by (simp add: P)
  also have "\<dots> = filter (\<lambda>p. \<forall>k\<in>set ks. g k [p] = [p]) (filter P ps)" by (rule Cons.IH)
  also have "\<dots> = filter (\<lambda>p. \<forall>k'\<in>set (k # ks). g k' [p] = [p]) ps"
    by (auto simp: P intro!: filter_cong)
  finally show ?case .
qed

lemma applyFilters_fold:
  "applyFilters ps f = fold (applyKey f) [KCity, KBhk, KMaxPrice, KLocality, KPossession] ps"
  by (simp add: applyFilters_def Let_def)

text \<open>
  C7. For every collection and every filter object, applying the five per-key steps
  of the engine in any order gives the list that \<open>applyFilters\<close> gives.
\<close>

theorem applyFilters_order:
  assumes "mset keys = mset [KCity, KBhk, KMaxPrice, KLocality, KPossession]"
  shows "applyInOrder keys ps f = applyFilters ps f"
proof -
  from assms have "set keys = set [KCity, KBhk, KMaxPrice, KLocality, KPossession]"
    by (rule mset_eq_setD)
  then show ?thesis
    unfolding applyInOrder_def applyFilters_fold
    by (simp only: fold_filter_steps [of "applyKey f", OF applyKey_filter])
qed

theorem applyFilters_order_witness:
  "mset [KPossession, KMaxPrice, KCity, KLocality, KBhk] =
     mset [KCity, KBhk, KMaxPrice, KLocality, KPossession] \<and>
   applyInOrder [KPossession, KMaxPrice, KCity, KLocality, KBhk] exampleListings
     (noFilters\<lparr>f_city := Some ''pune'', f_maxPrice := Some 10000000\<rparr>) =
   [listing ''Pune'' 2 9000000]"
proof -
  have m: "mset [KPossession, KMaxPrice, KCity, KLocality, KBhk] =
     mset [KCity, KBhk, KMaxPrice, KLocality, KPossession]"
    by simp
  have "applyFilters exampleListings (noFilters\<lparr>f_city := Some ''pune'', f_maxPrice := Some 10000000\<rparr>) =
     [listing ''Pune'' 2 9000000]"
    by (simp add: filter_eval)
  with applyFilters_order [OF m, of exampleListings
      "noFilters\<lparr>f_city := Some ''pune'', f_maxPrice := Some 10000000\<rparr>"] m
  show ?thesis by simp
qed

subsection \<open>Filter extraction\<close>



text \<open>
  The fallback parser itself produces filter objects with falsy values: the message
  "0 bhk under 0 lakh" gives bhk 0 and maxPrice 0.
\<close>

lemma fallback_zero_values:
  "enhancedFilterExtraction ''0 bhk under 0 lakh'' =
     noFilters\<lparr>f_bhk := Some 0, f_maxPrice := Some 0\<rparr>"
  by code_simp


lemma isSpecificQuery_iff:
  "isSpecificQuery msg \<longleftrightarrow> (\<exists>k\<in>set specificKeywords. includesStr (toLowerCase msg) k)"
  by (simp add: isSpecificQuery_def list_ex_iff)

lemma applyFilters_noFilters: "applyFilters ps noFilters = ps"
  by (simp add: applyFilters_def byCity_def byBhk_def byMaxPrice_def byLocality_def
      byPossession_def noFilters_def)

text \<open>
  C10. When the lower-case text of the message contains one of the eight keywords,
  \<open>extractFilters\<close> returns the empty filter object and calls neither the LLM service
  nor the fallback parser, whatever the service would answer; the empty filter object
  puts no constraint on the collection.
\<close>

theorem extractFilters_specific:
  assumes "k \<in> set [''address of'', ''details of'', ''information about'', ''show me'',
                     ''tell me about'', ''where is'', ''location of'', ''full address of'']"
    and "includesStr (toLowerCase msg) k"
  shows "extractFilters llm msg = (noFilters, []) \<and>
         applyFilters ps (fst (extractFilters llm msg)) = ps"
proof -
  from assms have "isSpecificQuery msg"
    unfolding isSpecificQuery_iff specificKeywords_def by blast
  then show ?thesis by (simp add: extractFilters_def applyFilters_noFilters)
qed

theorem extractFilters_specific_witness:
  "includesStr (toLowerCase ''show me 3BHK in Pune'') ''show me'' \<and>
   (\<forall>llm. extractFilters llm ''show me 3BHK in Pune'' = (noFilters, []))"
proof -
  have k: "''show me'' \<in> set [''address of'', ''details of'', ''information about'', ''show me'',
                     ''tell me about'', ''where is'', ''location of'', ''full address of'']"
    by simp
  have i: "includesStr (toLowerCase ''show me 3BHK in Pune'') ''show me''"
    by (simp add: toLowerCase_def toLowerChar_def)
  show ?thesis using extractFilters_specific [OF k i] i by blast
qed

end
